theory Spec2Isabelle
  imports Main
begin

section \<open>The build command of podman (cmd/podman/images/build.go)\<close>

text \<open>
  The file embeds \<^verbatim>\<open>cmd/podman/images/build.go\<close>: the registration of the build flags
  (\<open>useLayers\<close>, \<open>buildFlags\<close>, \<open>init\<close>), the command itself (\<open>build\<close>) and the
  translation of the parsed flags into the options of the build engine
  (\<open>buildFlagsWrapperToOptions\<close>).

  Everything the Go file imports from another package is a field of the record \<open>world\<close>,
  named after the Go identifier (\<open>filepath.Abs\<close> is \<open>filepath_Abs\<close>), and every theorem
  holds for all worlds. Errors are values of the datatype \<open>error\<close>; the calls that reach
  outside the process are recorded, in order, as a list of \<open>event\<close>s.
\<close>

subsection \<open>Strings: the functions of Go's package strings that the file calls\<close>

text \<open>Go strings are byte sequences, as \<^typ>\<open>string\<close> is.
  \<^verbatim>\<open>strings.HasPrefix(s, prefix)\<close> is
  \<^verbatim>\<open>len(s) >= len(prefix) && s[0:len(prefix)] == prefix\<close>.\<close>

definition HasPrefix :: "string \<Rightarrow> string \<Rightarrow> bool" where
  "HasPrefix s p \<longleftrightarrow> length p \<le> length s \<and> take (length p) s = p"

text \<open>\<^verbatim>\<open>strings.ToLower\<close>: a string of ASCII bytes only has each byte in \<open>'A'..'Z'\<close>
  moved by \<open>'a' - 'A'\<close>; any other string is mapped rune by rune through
  \<^verbatim>\<open>unicode.ToLower\<close>, whose tables are the parameter \<open>unicodeLower\<close>.\<close>

definition asciiLower :: "char \<Rightarrow> char" where
  "asciiLower c =
     (if (65::nat) \<le> of_char c \<and> of_char c \<le> (90::nat)
      then char_of (of_char c + (32::nat)) else c)"

definition isASCII :: "string \<Rightarrow> bool" where
  "isASCII s = list_all (\<lambda>c. (of_char c :: nat) < 128) s"

definition ToLower :: "(string \<Rightarrow> string) \<Rightarrow> string \<Rightarrow> string" where
  "ToLower unicodeLower s = (if isASCII s then map asciiLower s else unicodeLower s)"

text \<open>\<^verbatim>\<open>strings.SplitN(s, sep, n)\<close> for a separator of one byte and \<open>n \<ge> 0\<close>: at most
  \<open>n\<close> pieces, the last one holding the unsplit rest.\<close>

fun SplitN :: "string \<Rightarrow> char \<Rightarrow> nat \<Rightarrow> string list" where
  "SplitN s sep 0 = []"
| "SplitN s sep (Suc 0) = [s]"
| "SplitN s sep (Suc (Suc n)) =
     (if sep \<in> set s
      then takeWhile (\<lambda>c. c \<noteq> sep) s # SplitN (tl (dropWhile (\<lambda>c. c \<noteq> sep) s)) sep (Suc n)
      else [s])"

subsection \<open>Data\<close>

datatype error =
    ConflictingSquashLayers
      \<comment> \<open>cannot specify --squash, --squash-all and --layers options together\<close>
  | PreppingTempContextDir error
      \<comment> \<open>error prepping temporary context directory\<close>
  | DeterminingPathToDirectory string error
      \<comment> \<open>error determining path to directory %q\<close>
  | DeterminingPathToFile string error
      \<comment> \<open>error determining path to file %q\<close>
  | NoContextDirectory
      \<comment> \<open>no context directory and no Containerfile specified\<close>
  | ContextMustBeDirectory string
      \<comment> \<open>context must be a directory: %q\<close>
  | UnrecognizedImageType string
      \<comment> \<open>unrecognized image type %q\<close>
  | External string
      \<comment> \<open>an error made by a function of another package, passed on as it is\<close>

datatype PullPolicy = PullIfMissing | PullAlways | PullNever

datatype Compression = Gzip | Uncompressed

datatype os_File = Stdout | Stderr | OpenedFile string

type_synonym NamespaceOption = string
type_synonym NetworkConfigurationPolicy = nat
type_synonym Isolation = nat
type_synonym IDMappingOptions = string
type_synonym SystemContext = string

text \<open>\<^verbatim>\<open>buildah.CommonBuildOptions\<close> and \<^verbatim>\<open>imagebuildah.BuildOptions\<close>, with the fields
  that \<open>buildFlagsWrapperToOptions\<close> computes. The remaining fields of the Go struct
  (capabilities, annotations, architecture, CPU settings, labels, ...) are copies of the
  flag of the same name and are left out.\<close>

record CommonBuildOptions =
  HTTPProxy :: bool
  Memory :: int
  MemorySwap :: int

record BuildOptions =
  AdditionalTags :: "string list"
  Args :: "string \<rightharpoonup> string"
  CommonBuildOpts :: CommonBuildOptions
  Compression :: Compression
  ConfigureNetwork :: NetworkConfigurationPolicy
  ContextDirectory :: string
  Err :: os_File
  ForceRmIntermediateCtrs :: bool
  IDMappingOptions :: IDMappingOptions
  Isolation :: Isolation
  Layers :: bool
  NamespaceOptions :: "NamespaceOption list"
  Out :: os_File
  Output :: string
  OutputFormat :: string
  PullPolicy :: PullPolicy
  ReportWriter :: os_File
  Runtime :: string
  RuntimeArgs :: "string list"
  Squash :: bool
  SystemContext :: SystemContext

text \<open>The part of \<^verbatim>\<open>config.Config\<close> that is read.\<close>

record Config =
  RuntimeFlags :: "string list"
  CgroupManager :: string
  RuntimePath :: string

text \<open>\<open>buildFlagsWrapper\<close>: the variables the flags are bound to (the embedded
  \<^verbatim>\<open>BudResults\<close>, \<^verbatim>\<open>LayerResults\<close> and \<^verbatim>\<open>FromAndBudResults\<close> of buildah, and
  \<open>SquashAll\<close>), with the fields that \<open>build\<close> and \<open>buildFlagsWrapperToOptions\<close> test or
  change.\<close>

record buildFlagsWrapper =
  BuildArg :: "string list"
  DisableCompression :: bool
  File :: "string list"
  Format :: string
  Logfile :: string
  Pull :: bool
  PullAlways :: bool
  PullNever :: bool
  RuntimeFlags :: "string list"
  Squash :: bool
  Tag :: "string list"
  ForceRm :: bool
  Layers :: bool
  HTTPProxy :: bool
  Isolation :: string
  Memory :: string
  MemorySwap :: string
  SquashAll :: bool

text \<open>A \<^verbatim>\<open>cobra.Command\<close>: the names of the flags that were set on the command line
  (\<^verbatim>\<open>Changed\<close>) and the default shown for each flag (\<^verbatim>\<open>DefValue\<close>). The value of a
  flag lives in the variable it is bound to, a field of \<open>buildOpts\<close>.\<close>

record cmd =
  changed :: "string set"
  DefValue :: "string \<rightharpoonup> string"

definition Changed :: "cmd \<Rightarrow> string \<Rightarrow> bool" where
  "Changed c name \<longleftrightarrow> name \<in> changed c"

text \<open>The state of the process: the package variable \<open>buildOpts\<close> and the output of the
  logger. The program holds one \<open>buildFlagsWrapper\<close>, \<open>buildOpts\<close>, and \<open>build\<close> passes
  its address to \<open>buildFlagsWrapperToOptions\<close>: there \<^verbatim>\<open>flags.X\<close> and \<^verbatim>\<open>buildOpts.X\<close>
  are the same variable.\<close>

record pstate =
  buildOpts :: buildFlagsWrapper
  logOutput :: os_File

text \<open>The value a flag is given on the command line, already read as a boolean, a
  string or a list of strings.\<close>

datatype flagValue = BoolValue bool | StringValue string | StringsValue "string list"

text \<open>What the file takes from other packages. \<open>buildahCLI_otherFlags name v\<close> holds
  when \<open>name\<close> is one of the flags that \<^verbatim>\<open>GetBudFlags\<close>, \<^verbatim>\<open>GetLayerFlags\<close> and
  \<^verbatim>\<open>GetFromAndBudFlags\<close> bind to a variable that is not a field of the record
  \<open>buildFlagsWrapper\<close> above (\<open>creds\<close>, \<open>quiet\<close>, \<open>no-cache\<close>, \<open>signature-policy\<close>, ...)
  and the flag library can read \<open>v\<close> as a value of it.\<close>

record world =
  environ :: "string \<rightharpoonup> string"
  unicode_ToLower :: "string \<Rightarrow> string"
  buildahCLI_defaults :: buildFlagsWrapper
  buildahCLI_otherFlags :: "string \<Rightarrow> flagValue \<Rightarrow> bool"
  registry_IsRemote :: bool
  registry_PodmanConfig :: Config
  config_SystemdCgroupsManager :: string
  imagebuildah_TempDirForURL :: "string \<Rightarrow> error + string \<times> string"
  filepath_Abs :: "string \<Rightarrow> error + string"
  filepath_Dir :: "string \<Rightarrow> string"
  filepath_Join :: "string \<Rightarrow> string \<Rightarrow> string"
  utils_IsDir :: "string \<Rightarrow> bool"
  utils_FileExists :: "string \<Rightarrow> bool"
  os_OpenFile :: "string \<Rightarrow> error + os_File"
  units_RAMInBytes :: "string \<Rightarrow> error + int"
  parse_NamespaceOptions :: "error + NamespaceOption list \<times> NetworkConfigurationPolicy"
  parse_IsolationOption :: "string \<Rightarrow> error + Isolation"
  parse_IDMappingOptions :: "Isolation \<Rightarrow> error + NamespaceOption list \<times> IDMappingOptions"
  parse_SystemContextFromOptions :: "error + SystemContext"
  buildah_OCI :: string
  buildah_DOCKER :: string
  buildah_OCIv1ImageManifest :: string
  buildah_Dockerv2ImageManifest :: string
  ImageEngine_Build :: "string list \<Rightarrow> BuildOptions \<Rightarrow> error option"

datatype event =
    EvTempDirForURL string
  | EvAbs string
  | EvIsDir string
  | EvFileExists string
  | EvOpenFile string
  | EvBuild "string list" BuildOptions
  | EvClose os_File
  | EvRemoveAll string

subsection \<open>useLayers, buildFlags and init\<close>

text \<open>\<^verbatim>\<open>os.Getenv\<close>: the value of the variable, empty when it is not set.\<close>

definition Getenv :: "world \<Rightarrow> string \<Rightarrow> string" where
  "Getenv w key = (case environ w key of None \<Rightarrow> [] | Some v \<Rightarrow> v)"

definition useLayers :: "world \<Rightarrow> string" where
  "useLayers w =
     (let layers = Getenv w ''BUILDAH_LAYERS'' in
      if ToLower (unicode_ToLower w) layers = ''false'' \<or> layers = ''0''
      then ''false'' else ''true'')"

text \<open>\<open>buildFlags\<close> registers the flags on a command. Registering a flag stores its
  default in the variable it is bound to: \<open>false\<close> for \<open>squash-all\<close>, the defaults of
  buildah (\<open>buildahCLI_defaults\<close>) for the flags of \<^verbatim>\<open>GetBudFlags\<close>,
  \<^verbatim>\<open>GetLayerFlags\<close> and \<^verbatim>\<open>GetFromAndBudFlags\<close>. The function then replaces the
  defaults of \<open>pull\<close>, \<open>layers\<close>, \<open>force-rm\<close> and, for a remote client, \<open>http-proxy\<close>.
  (When \<^verbatim>\<open>GetFromAndBudFlags\<close> fails, lines 134 to 137 end the process before any
  command is run; the runs below are those where it does not.)\<close>

definition buildFlags :: "world \<Rightarrow> cmd \<Rightarrow> pstate \<Rightarrow> cmd \<times> pstate" where
  "buildFlags w c s =
     (let opts = (buildOpts s)\<lparr>SquashAll := False\<rparr>;
          opts = (buildahCLI_defaults w)\<lparr>SquashAll := SquashAll opts\<rparr>;
          opts = opts\<lparr>Pull := True\<rparr>;
          c = c\<lparr>DefValue := (DefValue c)(''pull'' \<mapsto> ''true'')\<rparr>;
          useLayersVal = useLayers w;
          opts = opts\<lparr>Layers := (useLayersVal = ''true'')\<rparr>;
          \<comment> \<open>\<^verbatim>\<open>flag.Value.Set(useLayersVal)\<close> stores the same boolean in \<open>buildOpts.Layers\<close>\<close>
          opts = opts\<lparr>Layers := (useLayersVal = ''true'')\<rparr>;
          c = c\<lparr>DefValue := (DefValue c)(''layers'' \<mapsto> useLayersVal)\<rparr>;
          opts = opts\<lparr>ForceRm := True\<rparr>;
          c = c\<lparr>DefValue := (DefValue c)(''force-rm'' \<mapsto> ''true'')\<rparr>;
          (opts, c) =
            (if registry_IsRemote w
             then (opts\<lparr>HTTPProxy := False\<rparr>,
                   c\<lparr>DefValue := (DefValue c)(''http-proxy'' \<mapsto> ''false'')\<rparr>)
             else (opts, c))
      in (c, s\<lparr>buildOpts := opts\<rparr>))"

text \<open>\<open>init\<close> registers the flags on \<open>buildCmd\<close> and on \<open>imageBuildCmd\<close>, both bound to
  \<open>buildOpts\<close>.\<close>

definition init :: "world \<Rightarrow> cmd \<Rightarrow> cmd \<Rightarrow> pstate \<Rightarrow> (cmd \<times> cmd) \<times> pstate" where
  "init w buildCmd imageBuildCmd s =
     (let (buildCmd, s) = buildFlags w buildCmd s;
          (imageBuildCmd, s) = buildFlags w imageBuildCmd s
      in ((buildCmd, imageBuildCmd), s))"

subsection \<open>The command line\<close>

text \<open>The flag library (cobra and pflag) reads the command line between \<open>init\<close> and
  \<open>build\<close>. For each flag given it stores the value in the variable the flag is bound
  to and marks the flag as changed; it touches no other variable. A flag is given by
  its name (the long name, after \<^verbatim>\<open>AliasFlags\<close>) with its value. The first value given
  to a list flag replaces the default, later ones are appended.

  \<open>setModelledFlag\<close> is the assignment for the flags bound to a field of
  \<open>buildFlagsWrapper\<close>; it is \<open>None\<close> for a value of the wrong type. Every other flag
  the command knows (\<open>buildahCLI_otherFlags\<close>) is bound to a variable outside the
  record: \<open>setFlag\<close> accepts it and leaves the record as it is. A flag the command does
  not know is rejected.\<close>

definition modelledFlags :: "string set" where
  "modelledFlags =
     {''disable-compression'', ''pull'', ''pull-always'', ''pull-never'', ''squash'',
      ''force-rm'', ''layers'', ''http-proxy'', ''squash-all'', ''format'', ''logfile'',
      ''isolation'', ''memory'', ''memory-swap'', ''build-arg'', ''file'', ''runtime-flag'',
      ''tag''}"

definition setModelledFlag ::
  "string \<Rightarrow> flagValue \<Rightarrow> bool \<Rightarrow> buildFlagsWrapper \<Rightarrow> buildFlagsWrapper option" where
  "setModelledFlag name v wasChanged f =
     (case v of
        BoolValue b \<Rightarrow>
          (if name = ''disable-compression'' then Some (f\<lparr>DisableCompression := b\<rparr>)
           else if name = ''pull'' then Some (f\<lparr>Pull := b\<rparr>)
           else if name = ''pull-always'' then Some (f\<lparr>PullAlways := b\<rparr>)
           else if name = ''pull-never'' then Some (f\<lparr>PullNever := b\<rparr>)
           else if name = ''squash'' then Some (f\<lparr>Squash := b\<rparr>)
           else if name = ''force-rm'' then Some (f\<lparr>ForceRm := b\<rparr>)
           else if name = ''layers'' then Some (f\<lparr>Layers := b\<rparr>)
           else if name = ''http-proxy'' then Some (f\<lparr>HTTPProxy := b\<rparr>)
           else if name = ''squash-all'' then Some (f\<lparr>SquashAll := b\<rparr>)
           else None)
      | StringValue x \<Rightarrow>
          (if name = ''format'' then Some (f\<lparr>Format := x\<rparr>)
           else if name = ''logfile'' then Some (f\<lparr>Logfile := x\<rparr>)
           else if name = ''isolation'' then Some (f\<lparr>Isolation := x\<rparr>)
           else if name = ''memory'' then Some (f\<lparr>Memory := x\<rparr>)
           else if name = ''memory-swap'' then Some (f\<lparr>MemorySwap := x\<rparr>)
           else None)
      | StringsValue xs \<Rightarrow>
          (if name = ''build-arg''
           then Some (f\<lparr>BuildArg := (if wasChanged then BuildArg f @ xs else xs)\<rparr>)
           else if name = ''file''
           then Some (f\<lparr>File := (if wasChanged then File f @ xs else xs)\<rparr>)
           else if name = ''runtime-flag''
           then Some (f\<lparr>RuntimeFlags := (if wasChanged then RuntimeFlags f @ xs else xs)\<rparr>)
           else if name = ''tag''
           then Some (f\<lparr>Tag := (if wasChanged then Tag f @ xs else xs)\<rparr>)
           else None))"

definition setFlag ::
  "world \<Rightarrow> string \<Rightarrow> flagValue \<Rightarrow> bool \<Rightarrow> buildFlagsWrapper \<Rightarrow> buildFlagsWrapper option" where
  "setFlag w name v wasChanged f =
     (if name \<in> modelledFlags then setModelledFlag name v wasChanged f
      else if buildahCLI_otherFlags w name v then Some f
      else None)"

fun ParseFlags ::
  "world \<Rightarrow> (string \<times> flagValue) list \<Rightarrow> cmd \<Rightarrow> buildFlagsWrapper \<Rightarrow>
   (cmd \<times> buildFlagsWrapper) option" where
  "ParseFlags w [] c f = Some (c, f)"
| "ParseFlags w ((name, v) # rest) c f =
     (case setFlag w name v (Changed c name) f of
        None \<Rightarrow> None
      | Some f' \<Rightarrow> ParseFlags w rest (c\<lparr>changed := insert name (changed c)\<rparr>) f')"

subsection \<open>build\<close>

text \<open>Lines 158 to 160: two of \<open>squash\<close>, \<open>squash-all\<close> and \<open>layers\<close> were set.\<close>

definition squashLayersConflict :: "cmd \<Rightarrow> bool" where
  "squashLayersConflict c \<longleftrightarrow>
     (Changed c ''squash'' \<and> Changed c ''layers'') \<or>
     (Changed c ''squash-all'' \<and> Changed c ''layers'') \<or>
     (Changed c ''squash-all'' \<and> Changed c ''squash'')"

text \<open>Lines 165 to 172: the container files of the command line.\<close>

definition containerFilesOfCLI :: "string list \<Rightarrow> string list" where
  "containerFilesOfCLI fs = map (\<lambda>f. if f = ''-'' then ''/dev/stdin'' else f) fs"

text \<open>Lines 203 to 206: the test that skips a container file.\<close>

definition remoteContainerfile :: "string \<Rightarrow> bool" where
  "remoteContainerfile f \<longleftrightarrow>
     HasPrefix f ''http://'' \<or> HasPrefix f ''https://'' \<or>
     HasPrefix f ''git://'' \<or> HasPrefix f ''github.com/''"

text \<open>Lines 202 to 215: the loop over the container files when no context was given. It
  leaves \<open>contextDir\<close> empty when it skips every file.\<close>

fun homeOfFirstLocalContainerfile :: "world \<Rightarrow> string list \<Rightarrow> event list \<times> (error + string)" where
  "homeOfFirstLocalContainerfile w [] = ([], Inr [])"
| "homeOfFirstLocalContainerfile w (f # fs) =
     (if remoteContainerfile f then homeOfFirstLocalContainerfile w fs
      else case filepath_Abs w f of
             Inl err \<Rightarrow> ([EvAbs f], Inl (DeterminingPathToFile f err))
           | Inr absFile \<Rightarrow> ([EvAbs f], Inr (filepath_Dir w absFile)))"

text \<open>Lines 175 to 216: the context directory, with the temporary directory that was
  made for it (empty when none was).\<close>

definition determineContextDir ::
  "world \<Rightarrow> string list \<Rightarrow> string list \<Rightarrow> event list \<times> (error + string \<times> string)" where
  "determineContextDir w args containerFiles =
     (case args of
        arg0 # _ \<Rightarrow>
          (case imagebuildah_TempDirForURL w arg0 of
             Inl err \<Rightarrow> ([EvTempDirForURL arg0], Inl (PreppingTempContextDir err))
           | Inr (tempDir, subDir) \<Rightarrow>
               if tempDir \<noteq> []
               then ([EvTempDirForURL arg0], Inr (filepath_Join w tempDir subDir, tempDir))
               else (case filepath_Abs w arg0 of
                       Inl err \<Rightarrow>
                         ([EvTempDirForURL arg0, EvAbs arg0],
                          Inl (DeterminingPathToDirectory arg0 err))
                     | Inr absDir \<Rightarrow> ([EvTempDirForURL arg0, EvAbs arg0], Inr (absDir, []))))
      | [] \<Rightarrow>
          (case homeOfFirstLocalContainerfile w containerFiles of
             (evs, Inl err) \<Rightarrow> (evs, Inl err)
           | (evs, Inr contextDir) \<Rightarrow> (evs, Inr (contextDir, []))))"

text \<open>Lines 224 to 230: the container file of the context directory when the command
  line named none.\<close>

definition defaultContainerfile :: "world \<Rightarrow> string \<Rightarrow> string list \<Rightarrow> event list \<times> string list" where
  "defaultContainerfile w contextDir containerFiles =
     (if length containerFiles = 0
      then ([EvFileExists (filepath_Join w contextDir ''Containerfile'')],
            if utils_FileExists w (filepath_Join w contextDir ''Containerfile'')
            then containerFiles @ [filepath_Join w contextDir ''Containerfile'']
            else containerFiles @ [filepath_Join w contextDir ''Dockerfile''])
      else ([], containerFiles))"

text \<open>Lines 232 to 240: the log file.\<close>

definition openLogfile :: "world \<Rightarrow> cmd \<Rightarrow> pstate \<Rightarrow> event list \<times> (error + os_File option)" where
  "openLogfile w c s =
     (if Changed c ''logfile''
      then (case os_OpenFile w (Logfile (buildOpts s)) of
              Inl err \<Rightarrow> ([EvOpenFile (Logfile (buildOpts s))], Inl err)
            | Inr logfile \<Rightarrow> ([EvOpenFile (Logfile (buildOpts s))], Inr (Some logfile)))
      else ([], Inr None))"

subsection \<open>buildFlagsWrapperToOptions\<close>

text \<open>Lines 267 to 277: the pull policy.\<close>

definition pullPolicyOf :: "cmd \<Rightarrow> buildFlagsWrapper \<Rightarrow> PullPolicy" where
  "pullPolicyOf c flags =
     (let pullPolicy = PullIfMissing;
          pullPolicy = (if Changed c ''pull'' \<and> Pull flags
                        then PullPolicy.PullAlways else pullPolicy);
          pullPolicy = (if PullAlways flags then PullPolicy.PullAlways else pullPolicy);
          pullPolicy = (if PullNever flags then PullIfMissing else pullPolicy)
      in pullPolicy)"

text \<open>Lines 279 to 289: the build arguments. \<open>addBuildArg\<close> is the body of the loop.\<close>

definition addBuildArg :: "(string \<rightharpoonup> string) \<Rightarrow> string \<Rightarrow> (string \<rightharpoonup> string)" where
  "addBuildArg args arg =
     (let av = SplitN arg (CHR ''='') 2 in
      if length av > 1 then args(av ! 0 \<mapsto> av ! 1) else args(av ! 0 := None))"

definition buildArgsOf :: "cmd \<Rightarrow> buildFlagsWrapper \<Rightarrow> (string \<rightharpoonup> string)" where
  "buildArgsOf c flags =
     (if Changed c ''build-arg'' then foldl addBuildArg Map.empty (BuildArg flags)
      else Map.empty)"

text \<open>Lines 299 to 307, and again lines 348 to 356 (the first copy reads
  \<^verbatim>\<open>buildOpts.Squash\<close>, the second \<^verbatim>\<open>flags.Squash\<close>, the same variable): the
  translation of \<open>squash\<close> and \<open>squash-all\<close> into the options of buildah.\<close>

definition squashRules :: "cmd \<Rightarrow> buildFlagsWrapper \<Rightarrow> buildFlagsWrapper" where
  "squashRules c flags =
     (let flags = (if Changed c ''squash'' \<and> Squash flags
                   then flags\<lparr>Squash := False, Layers := False\<rparr> else flags);
          flags = (if Changed c ''squash-all''
                   then flags\<lparr>Squash := True, Layers := False\<rparr> else flags)
      in flags)"

text \<open>Lines 379 to 388, after the format was put in lower case.\<close>

definition outputFormat :: "world \<Rightarrow> string \<Rightarrow> error + string" where
  "outputFormat w fmt =
     (if HasPrefix fmt (buildah_OCI w) then Inr (buildah_OCIv1ImageManifest w)
      else if HasPrefix fmt (buildah_DOCKER w) then Inr (buildah_Dockerv2ImageManifest w)
      else Inl (UnrecognizedImageType fmt))"

text \<open>Lines 390 to 401: the flags of the runtime.\<close>

definition runtimeFlagsOf :: "world \<Rightarrow> buildFlagsWrapper \<Rightarrow> string list" where
  "runtimeFlagsOf w flags =
     (let runtimeFlags = [];
          runtimeFlags = runtimeFlags @ map (\<lambda>arg. ''--'' @ arg) (RuntimeFlags flags);
          containerConfig = registry_PodmanConfig w;
          runtimeFlags = runtimeFlags @ map (\<lambda>arg. ''--'' @ arg) (Config.RuntimeFlags containerConfig);
          runtimeFlags = (if CgroupManager containerConfig = config_SystemdCgroupsManager w
                          then runtimeFlags @ [''--systemd-cgroup''] else runtimeFlags)
      in runtimeFlags)"

text \<open>The function returns the state as well: it writes \<open>Squash\<close>, \<open>Layers\<close> and
  \<open>Format\<close> of \<open>buildOpts\<close> and redirects the logger, also when it fails afterwards.\<close>

definition buildFlagsWrapperToOptions ::
  "world \<Rightarrow> cmd \<Rightarrow> string \<Rightarrow> os_File option \<Rightarrow> pstate \<Rightarrow> pstate \<times> (error + BuildOptions)" where
  "buildFlagsWrapperToOptions w c contextDir logfile s =
     (let (output, tags) =
            (if Changed c ''tag''
             then (case Tag (buildOpts s) of [] \<Rightarrow> ([], []) | t # ts \<Rightarrow> (t, ts))
             else ([], []));
          pullPolicy = pullPolicyOf c (buildOpts s);
          args = buildArgsOf c (buildOpts s);
          s = s\<lparr>buildOpts := (buildOpts s)\<lparr>Layers := Layers (buildOpts s)\<rparr>\<rparr>;
          s = s\<lparr>buildOpts := squashRules c (buildOpts s)\<rparr>;
          (stdout, stderr, reporter) =
            (case logfile of None \<Rightarrow> (Stdout, Stderr, Stderr) | Some f \<Rightarrow> (f, f, f));
          s = s\<lparr>logOutput := (case logfile of None \<Rightarrow> logOutput s | Some f \<Rightarrow> f)\<rparr>
      in
      case (if Changed c ''memory'' then units_RAMInBytes w (Memory (buildOpts s)) else Inr 0) of
        Inl err \<Rightarrow> (s, Inl err)
      | Inr memoryLimit \<Rightarrow>
     (case (if Changed c ''memory-swap'' then units_RAMInBytes w (MemorySwap (buildOpts s))
            else Inr 0) of
        Inl err \<Rightarrow> (s, Inl err)
      | Inr memorySwap \<Rightarrow>
     (case parse_NamespaceOptions w of
        Inl err \<Rightarrow> (s, Inl err)
      | Inr (nsValues, networkPolicy) \<Rightarrow>
     (let s = s\<lparr>buildOpts := squashRules c (buildOpts s)\<rparr>;
          compression = (if DisableCompression (buildOpts s) then Uncompressed else Gzip)
      in
      case parse_IsolationOption w (Isolation (buildOpts s)) of
        Inl err \<Rightarrow> (s, Inl err)
      | Inr isolation \<Rightarrow>
     (case parse_IDMappingOptions w isolation of
        Inl err \<Rightarrow> (s, Inl err)
      | Inr (usernsOption, idmappingOptions) \<Rightarrow>
     (let nsValues = nsValues @ usernsOption in
      case parse_SystemContextFromOptions w of
        Inl err \<Rightarrow> (s, Inl err)
      | Inr systemContext \<Rightarrow>
     (let s = s\<lparr>buildOpts :=
                 (buildOpts s)\<lparr>Format := ToLower (unicode_ToLower w) (Format (buildOpts s))\<rparr>\<rparr>
      in
      case outputFormat w (Format (buildOpts s)) of
        Inl err \<Rightarrow> (s, Inl err)
      | Inr format \<Rightarrow>
     (let flags = buildOpts s;
          runtimeFlags = runtimeFlagsOf w flags;
          containerConfig = registry_PodmanConfig w
      in (s, Inr \<lparr>BuildOptions.AdditionalTags = tags,
                   Args = args,
                   CommonBuildOpts =
                     \<lparr>CommonBuildOptions.HTTPProxy = HTTPProxy flags,
                      Memory = memoryLimit,
                      MemorySwap = memorySwap\<rparr>,
                   Compression = compression,
                   ConfigureNetwork = networkPolicy,
                   ContextDirectory = contextDir,
                   Err = stderr,
                   ForceRmIntermediateCtrs = ForceRm flags,
                   IDMappingOptions = idmappingOptions,
                   Isolation = isolation,
                   Layers = Layers flags,
                   NamespaceOptions = nsValues,
                   Out = stdout,
                   Output = output,
                   OutputFormat = format,
                   PullPolicy = pullPolicy,
                   ReportWriter = reporter,
                   Runtime = RuntimePath containerConfig,
                   RuntimeArgs = runtimeFlags,
                   Squash = Squash flags,
                   SystemContext = systemContext\<rparr>)))))))))"

subsection \<open>build, and the run of the command\<close>

text \<open>\<open>build\<close> returns the calls it made outside the process, the state and the error
  (\<open>None\<close> for \<^verbatim>\<open>nil\<close>). The deferred calls run when the function returns, the last
  deferred first: closing the log file, then removing the temporary directory.\<close>

definition build :: "world \<Rightarrow> cmd \<Rightarrow> string list \<Rightarrow> pstate \<Rightarrow> event list \<times> pstate \<times> error option" where
  "build w c args s =
     (if squashLayersConflict c then ([], s, Some ConflictingSquashLayers)
      else
        let containerFiles = containerFilesOfCLI (File (buildOpts s)) in
        case determineContextDir w args containerFiles of
          (evs1, Inl err) \<Rightarrow> (evs1, s, Some err)
        | (evs1, Inr (contextDir, tempDir)) \<Rightarrow>
       (let removeTempDir = (if tempDir \<noteq> [] then [EvRemoveAll tempDir] else []) in
        if contextDir = [] then (evs1 @ removeTempDir, s, Some NoContextDirectory)
        else if \<not> utils_IsDir w contextDir
        then (evs1 @ [EvIsDir contextDir] @ removeTempDir, s,
              Some (ContextMustBeDirectory contextDir))
        else
        let (evs2, containerFiles) = defaultContainerfile w contextDir containerFiles in
        case openLogfile w c s of
          (evs3, Inl err) \<Rightarrow>
            (evs1 @ [EvIsDir contextDir] @ evs2 @ evs3 @ removeTempDir, s, Some err)
        | (evs3, Inr logfile) \<Rightarrow>
       (let closeLogfile = (case logfile of None \<Rightarrow> [] | Some f \<Rightarrow> [EvClose f]) in
        case buildFlagsWrapperToOptions w c contextDir logfile s of
          (s, Inl err) \<Rightarrow>
            (evs1 @ [EvIsDir contextDir] @ evs2 @ evs3 @ closeLogfile @ removeTempDir, s,
             Some err)
        | (s, Inr apiBuildOpts) \<Rightarrow>
            (evs1 @ [EvIsDir contextDir] @ evs2 @ evs3 @
               [EvBuild containerFiles apiBuildOpts] @ closeLogfile @ removeTempDir,
             s, ImageEngine_Build w containerFiles apiBuildOpts))))"

text \<open>A run of \<^verbatim>\<open>podman build\<close> (or \<^verbatim>\<open>podman image build\<close>, when \<open>imageBuild\<close> holds):
  \<open>init\<close>, the flag library reading the command line into the command that was called,
  and \<open>build\<close>. The result is \<open>None\<close> when the flag library rejects the command line
  (a flag the command does not know, a value it cannot read, or more than the one
  argument of \<^verbatim>\<open>cobra.MaximumNArgs(1)\<close>) and \<open>build\<close> is not called.\<close>

definition emptyCommand :: cmd where
  "emptyCommand = \<lparr>changed = {}, DefValue = Map.empty\<rparr>"

definition Execute ::
  "world \<Rightarrow> bool \<Rightarrow> (string \<times> flagValue) list \<Rightarrow> string list \<Rightarrow> pstate \<Rightarrow>
   (event list \<times> pstate \<times> error option) option" where
  "Execute w imageBuild flagsGiven args s =
     (let ((buildCmd, imageBuildCmd), s) = init w emptyCommand emptyCommand s;
          c = (if imageBuild then imageBuildCmd else buildCmd)
      in case ParseFlags w flagsGiven c (buildOpts s) of
           None \<Rightarrow> None
         | Some (c, opts) \<Rightarrow>
             if length args > 1 then None
             else Some (build w c args (s\<lparr>buildOpts := opts\<rparr>)))"

subsection \<open>Observations, and a concrete world\<close>

text \<open>The options a call of \<open>buildFlagsWrapperToOptions\<close> returned, and the call of the
  build engine among the events of a run of \<open>build\<close>.\<close>

definition compiled :: "pstate \<times> (error + BuildOptions) \<Rightarrow> BuildOptions option" where
  "compiled r = (case snd r of Inl err \<Rightarrow> None | Inr opts \<Rightarrow> Some opts)"

fun engineCall :: "event list \<Rightarrow> (string list \<times> BuildOptions) option" where
  "engineCall [] = None"
| "engineCall (EvBuild files opts # evs) = Some (files, opts)"
| "engineCall (ev # evs) = engineCall evs"

text \<open>A field of the options that were given to the build engine, if it was called, and
  the events of a run of the command.\<close>

definition compiledOption :: "(BuildOptions \<Rightarrow> 'a) \<Rightarrow> event list \<Rightarrow> 'a option" where
  "compiledOption field evs = map_option (\<lambda>(files, opts). field opts) (engineCall evs)"

definition runEvents :: "(event list \<times> pstate \<times> error option) option \<Rightarrow> event list" where
  "runEvents r = (case r of None \<Rightarrow> [] | Some (evs, s, err) \<Rightarrow> evs)"

text \<open>The key of a build argument is what stands before its first equals sign (all of
  it when it has none), its value what stands after. \<open>lastBuildArgFor key args\<close> is the
  last argument of the list with that key.\<close>

definition buildArgKey :: "string \<Rightarrow> string" where
  "buildArgKey arg = takeWhile (\<lambda>c. c \<noteq> CHR ''='') arg"

definition buildArgValue :: "string \<Rightarrow> string" where
  "buildArgValue arg = tl (dropWhile (\<lambda>c. c \<noteq> CHR ''='') arg)"

definition lastBuildArgFor :: "string \<Rightarrow> string list \<Rightarrow> string option" where
  "lastBuildArgFor key args =
     (case rev (filter (\<lambda>arg. buildArgKey arg = key) args) of
        [] \<Rightarrow> None
      | arg # _ \<Rightarrow> Some arg)"

text \<open>The spellings of \<open>false\<close> in upper- and lower-case letters.\<close>

definition spellsFalse :: "string \<Rightarrow> bool" where
  "spellsFalse v \<longleftrightarrow>
     (\<exists>c1 c2 c3 c4 c5. v = [c1, c2, c3, c4, c5] \<and>
        (c1 = CHR ''f'' \<or> c1 = CHR ''F'') \<and> (c2 = CHR ''a'' \<or> c2 = CHR ''A'') \<and>
        (c3 = CHR ''l'' \<or> c3 = CHR ''L'') \<and> (c4 = CHR ''s'' \<or> c4 = CHR ''S'') \<and>
        (c5 = CHR ''e'' \<or> c5 = CHR ''E''))"

text \<open>The parsers of the other packages accept the flags: what is needed, beside a known
  format, for \<open>buildFlagsWrapperToOptions\<close> to return options.\<close>

definition parsersSucceed :: "world \<Rightarrow> cmd \<Rightarrow> buildFlagsWrapper \<Rightarrow> bool" where
  "parsersSucceed w c flags \<longleftrightarrow>
     (Changed c ''memory'' \<longrightarrow> \<not> isl (units_RAMInBytes w (Memory flags))) \<and>
     (Changed c ''memory-swap'' \<longrightarrow> \<not> isl (units_RAMInBytes w (MemorySwap flags))) \<and>
     \<not> isl (parse_NamespaceOptions w) \<and>
     (case parse_IsolationOption w (Isolation flags) of
        Inl err \<Rightarrow> False
      | Inr isolation \<Rightarrow> \<not> isl (parse_IDMappingOptions w isolation)) \<and>
     \<not> isl (parse_SystemContextFromOptions w)"

text \<open>A world to run the definitions in: no variable is set in the environment, the
  working directory is \<open>/work\<close>, the directory \<open>/tmp/ctx\<close> holds a \<open>Containerfile\<close>, and
  the constants of buildah have their values. Of the flags outside the record it knows
  \<open>quiet\<close>, \<open>no-cache\<close>, \<open>creds\<close> and \<open>signature-policy\<close>.\<close>

definition exampleDir :: "string \<Rightarrow> string" where
  "exampleDir p =
     (let d = rev (tl (dropWhile (\<lambda>c. c \<noteq> CHR ''/'') (rev p))) in if d = [] then ''/'' else d)"

definition exampleFlags :: buildFlagsWrapper where
  "exampleFlags =
     \<lparr>BuildArg = [], DisableCompression = False, File = [], Format = ''oci'', Logfile = [],
      Pull = False, PullAlways = False, PullNever = False, RuntimeFlags = [], Squash = False,
      Tag = [], ForceRm = False, Layers = False, HTTPProxy = True, Isolation = [],
      Memory = [], MemorySwap = [], SquashAll = False\<rparr>"

definition exampleWorld :: world where
  "exampleWorld =
     \<lparr>environ = Map.empty,
      unicode_ToLower = (\<lambda>s. s),
      buildahCLI_defaults = exampleFlags,
      buildahCLI_otherFlags =
        (\<lambda>name v. case v of
           BoolValue b \<Rightarrow> name = ''quiet'' \<or> name = ''no-cache''
         | StringValue x \<Rightarrow> name = ''creds'' \<or> name = ''signature-policy''
         | StringsValue xs \<Rightarrow> False),
      registry_IsRemote = False,
      registry_PodmanConfig =
        \<lparr>Config.RuntimeFlags = [], CgroupManager = ''systemd'', RuntimePath = ''/usr/bin/crun''\<rparr>,
      config_SystemdCgroupsManager = ''systemd'',
      imagebuildah_TempDirForURL = (\<lambda>url. Inr ([], [])),
      filepath_Abs = (\<lambda>p. Inr (if HasPrefix p ''/'' then p else ''/work/'' @ p)),
      filepath_Dir = exampleDir,
      filepath_Join = (\<lambda>a b. a @ ''/'' @ b),
      utils_IsDir = (\<lambda>p. p = ''/tmp/ctx'' \<or> p = ''/work''),
      utils_FileExists = (\<lambda>p. p = ''/tmp/ctx/Containerfile''),
      os_OpenFile = (\<lambda>p. Inr (OpenedFile p)),
      units_RAMInBytes = (\<lambda>x. Inl (External x)),
      parse_NamespaceOptions = Inr ([], 0),
      parse_IsolationOption = (\<lambda>x. Inr 0),
      parse_IDMappingOptions = (\<lambda>i. Inr ([], [])),
      parse_SystemContextFromOptions = Inr [],
      buildah_OCI = ''oci'',
      buildah_DOCKER = ''docker'',
      buildah_OCIv1ImageManifest = ''application/vnd.oci.image.manifest.v1+json'',
      buildah_Dockerv2ImageManifest = ''application/vnd.docker.distribution.manifest.v2+json'',
      ImageEngine_Build = (\<lambda>files opts. None)\<rparr>"

definition exampleState :: pstate where
  "exampleState = \<lparr>buildOpts = exampleFlags, logOutput = Stderr\<rparr>"

definition commandWith :: "string set \<Rightarrow> cmd" where
  "commandWith names = \<lparr>changed = names, DefValue = Map.empty\<rparr>"

section \<open>Properties\<close>

subsection \<open>Auxiliary facts\<close>

lemmas example_defs =
  exampleWorld_def exampleFlags_def exampleState_def commandWith_def exampleDir_def

lemma squashRules_fields [simp]:
  "Isolation (squashRules c f) = Isolation f"
  "Memory (squashRules c f) = Memory f"
  "MemorySwap (squashRules c f) = MemorySwap f"
  "Format (squashRules c f) = Format f"
  "DisableCompression (squashRules c f) = DisableCompression f"
  "HTTPProxy (squashRules c f) = HTTPProxy f"
  "ForceRm (squashRules c f) = ForceRm f"
  "RuntimeFlags (squashRules c f) = RuntimeFlags f"
  by (simp_all add: squashRules_def)

lemma squashRules_Squash:
  "Squash (squashRules c f) \<longleftrightarrow>
     Changed c ''squash-all'' \<or> (Squash f \<and> \<not> Changed c ''squash'')"
  by (auto simp add: squashRules_def)

lemma squashRules_Layers:
  "Layers (squashRules c f) \<longleftrightarrow>
     Layers f \<and> \<not> Changed c ''squash-all'' \<and> \<not> (Changed c ''squash'' \<and> Squash f)"
  by (auto simp add: squashRules_def)

lemma case_sum_InrE:
  assumes "(case x of Inl e \<Rightarrow> (a e, Inl (g e)) | Inr m \<Rightarrow> f m) = (s', Inr opts)"
  obtains m where "x = Inr m" and "f m = (s', Inr opts)"
  using assms by (cases x) auto

lemma toOptions_Inr:
  assumes "buildFlagsWrapperToOptions w c dir lf s = (s', Inr opts)"
  shows "BuildOptions.Squash opts = Squash (squashRules c (squashRules c (buildOpts s)))"
    and "BuildOptions.Layers opts = Layers (squashRules c (squashRules c (buildOpts s)))"
    and "PullPolicy opts = pullPolicyOf c (buildOpts s)"
    and "Args opts = buildArgsOf c (buildOpts s)"
    and "ContextDirectory opts = dir"
    and "outputFormat w (ToLower (unicode_ToLower w) (Format (buildOpts s))) =
           Inr (OutputFormat opts)"
  using assms
  unfolding buildFlagsWrapperToOptions_def Let_def split_beta
  by (elim case_sum_InrE; clarsimp)+

lemma engineCall_append [simp]:
  "engineCall (xs @ ys) = (case engineCall xs of None \<Rightarrow> engineCall ys | Some r \<Rightarrow> Some r)"
  by (induction xs rule: engineCall.induct) auto

lemma engineCall_home [simp]:
  "engineCall (fst (homeOfFirstLocalContainerfile w fs)) = None"
  by (induction fs) (auto split: sum.splits)

lemma engineCall_determineContextDir [simp]:
  "engineCall (fst (determineContextDir w args cfs)) = None"
proof (cases args)
  case Nil
  obtain evs r where h: "homeOfFirstLocalContainerfile w cfs = (evs, r)"
    by (cases "homeOfFirstLocalContainerfile w cfs")
  with engineCall_home [of w cfs] have "engineCall evs = None" by simp
  then show ?thesis using Nil h
    by (cases r) (simp_all add: determineContextDir_def)
next
  case (Cons a as)
  then show ?thesis
    by (auto simp add: determineContextDir_def split: prod.splits sum.splits)
qed

lemma engineCall_defaultContainerfile [simp]:
  "engineCall (fst (defaultContainerfile w dir cfs)) = None"
  by (simp add: defaultContainerfile_def)

lemma engineCall_openLogfile [simp]:
  "engineCall (fst (openLogfile w c s)) = None"
  by (simp add: openLogfile_def split: sum.splits)

lemma engineCall_deferred [simp]:
  "engineCall (if tmp \<noteq> [] then [EvRemoveAll tmp] else []) = None"
  "engineCall (case lf of None \<Rightarrow> [] | Some f \<Rightarrow> [EvClose f]) = None"
  by (simp_all split: option.splits)

lemma build_engineCall:
  assumes "engineCall (fst (build w c args s)) = Some (files, opts)"
  shows "\<not> squashLayersConflict c"
    and "\<exists>lf s'. buildFlagsWrapperToOptions w c (ContextDirectory opts) lf s = (s', Inr opts)"
    and "\<exists>evs tmp. determineContextDir w args (containerFilesOfCLI (File (buildOpts s))) =
           (evs, Inr (ContextDirectory opts, tmp))"
    and "files = snd (defaultContainerfile w (ContextDirectory opts)
                        (containerFilesOfCLI (File (buildOpts s))))"
    and "utils_IsDir w (ContextDirectory opts)"
    and "ContextDirectory opts \<noteq> []"
proof -
  let ?cfs = "containerFilesOfCLI (File (buildOpts s))"
  show nc: "\<not> squashLayersConflict c"
    using assms by (auto simp add: build_def)
  obtain evs1 r1 where d: "determineContextDir w args ?cfs = (evs1, r1)"
    by (cases "determineContextDir w args ?cfs")
  have e1: "engineCall evs1 = None"
    using engineCall_determineContextDir [of w args ?cfs] d by simp
  obtain dir tmp where r1: "r1 = Inr (dir, tmp)"
    using assms nc d e1 by (cases r1) (auto simp add: build_def)
  have dir: "dir \<noteq> []" "utils_IsDir w dir"
    using assms nc d e1 r1 by (auto simp add: build_def Let_def split: if_splits)
  obtain evs2 cfs2 where dc: "defaultContainerfile w dir ?cfs = (evs2, cfs2)"
    by (cases "defaultContainerfile w dir ?cfs")
  have e2: "engineCall evs2 = None"
    using engineCall_defaultContainerfile [of w dir ?cfs] dc by simp
  obtain evs3 r3 where ol: "openLogfile w c s = (evs3, r3)"
    by (cases "openLogfile w c s")
  have e3: "engineCall evs3 = None"
    using engineCall_openLogfile [of w c s] ol by simp
  have b: "build w c args s =
    (case r3 of
       Inl err \<Rightarrow> (evs1 @ [EvIsDir dir] @ evs2 @ evs3 @ (if tmp \<noteq> [] then [EvRemoveAll tmp] else []), s, Some err)
     | Inr logfile \<Rightarrow>
         (case buildFlagsWrapperToOptions w c dir logfile s of
            (s, Inl err) \<Rightarrow>
              (evs1 @ [EvIsDir dir] @ evs2 @ evs3 @ (case logfile of None \<Rightarrow> [] | Some f \<Rightarrow> [EvClose f]) @ (if tmp \<noteq> [] then [EvRemoveAll tmp] else []), s, Some err)
          | (s, Inr apiBuildOpts) \<Rightarrow>
              (evs1 @ [EvIsDir dir] @ evs2 @ evs3 @ [EvBuild cfs2 apiBuildOpts] @ (case logfile of None \<Rightarrow> [] | Some f \<Rightarrow> [EvClose f]) @ (if tmp \<noteq> [] then [EvRemoveAll tmp] else []),
               s, ImageEngine_Build w cfs2 apiBuildOpts)))"
    using nc d r1 dir dc ol
    by (cases r3) (simp_all add: build_def Let_def split: prod.splits sum.splits)
  obtain lf where r3: "r3 = Inr lf"
    using assms e1 e2 e3 unfolding b by (cases r3) (auto split: option.splits)
  obtain s' r4 where t: "buildFlagsWrapperToOptions w c dir lf s = (s', r4)"
    by (cases "buildFlagsWrapperToOptions w c dir lf s")
  have b2: "fst (build w c args s) =
    (case r4 of
       Inl err \<Rightarrow> evs1 @ [EvIsDir dir] @ evs2 @ evs3 @
          (case lf of None \<Rightarrow> [] | Some f \<Rightarrow> [EvClose f]) @
          (if tmp \<noteq> [] then [EvRemoveAll tmp] else [])
     | Inr apiBuildOpts \<Rightarrow> evs1 @ [EvIsDir dir] @ evs2 @ evs3 @ [EvBuild cfs2 apiBuildOpts] @
          (case lf of None \<Rightarrow> [] | Some f \<Rightarrow> [EvClose f]) @
          (if tmp \<noteq> [] then [EvRemoveAll tmp] else []))"
    using b r3 t by (cases r4) simp_all
  have "r4 = Inr opts \<and> files = cfs2"
    using assms e1 e2 e3 unfolding b2 by (cases r4) (auto split: option.splits)
  then have r4: "r4 = Inr opts" and f: "files = cfs2" by simp_all
  have cd: "ContextDirectory opts = dir"
    using toOptions_Inr(5) t r4 by blast
  show "\<exists>lf s'. buildFlagsWrapperToOptions w c (ContextDirectory opts) lf s = (s', Inr opts)"
    using t r4 cd by blast
  show "\<exists>evs tmp. determineContextDir w args ?cfs = (evs, Inr (ContextDirectory opts, tmp))"
    using d r1 cd by blast
  show "files = snd (defaultContainerfile w (ContextDirectory opts) ?cfs)"
    using f dc cd by simp
  show "utils_IsDir w (ContextDirectory opts)" "ContextDirectory opts \<noteq> []"
    using dir cd by simp_all
qed

subsection \<open>The conflict of squash, squash-all and layers\<close>

text \<open>C1. When at least two of the flags \<open>squash\<close>, \<open>squash-all\<close> and \<open>layers\<close> were set
  on the command line, \<open>build\<close> returns the conflict error at once: it has made no call
  outside the process (no container file was looked at, no context resolved) and the
  state is the one it started in. This holds for every world, every argument list and
  every state.\<close>

theorem build_conflict_fails_first:
  assumes "2 \<le> card ({''squash'', ''squash-all'', ''layers''} \<inter> changed c)"
  shows "build w c args s = ([], s, Some ConflictingSquashLayers)"
proof -
  have "squashLayersConflict c"
  proof (rule ccontr)
    assume "\<not> squashLayersConflict c"
    then have "card ({''squash'', ''squash-all'', ''layers''} \<inter> changed c) \<le> 1"
      by (cases "''squash'' \<in> changed c"; cases "''squash-all'' \<in> changed c";
          cases "''layers'' \<in> changed c")
         (simp_all add: squashLayersConflict_def Changed_def)
    with assms show False by simp
  qed
  then show ?thesis by (simp add: build_def)
qed

theorem build_conflict_fails_first_witness:
  "2 \<le> card ({''squash'', ''squash-all'', ''layers''} \<inter>
             changed (commandWith {''squash-all'', ''layers'', ''tag''})) \<and>
   build exampleWorld (commandWith {''squash-all'', ''layers'', ''tag''}) [''/tmp/ctx'']
     exampleState = ([], exampleState, Some ConflictingSquashLayers)"
proof -
  have h: "2 \<le> card ({''squash'', ''squash-all'', ''layers''} \<inter>
             changed (commandWith {''squash-all'', ''layers'', ''tag''}))"
    by (simp add: commandWith_def)
  show ?thesis
    using h build_conflict_fails_first [OF h, of exampleWorld "[''/tmp/ctx'']" exampleState]
    by simp
qed

subsection \<open>The translation of squash and squash-all\<close>

text \<open>C2, as stated, fails. The run \<^verbatim>\<open>podman build --squash=false /tmp/ctx\<close> gives
  \<open>squash\<close> explicitly and no other of the three flags, and the options handed to the
  build engine have \<open>Squash = False\<close> and \<open>Layers = True\<close> (the default, no
  \<open>BUILDAH_LAYERS\<close> being set): line 299 tests the value of the flag as well.\<close>

theorem squash_false_counterexample:
  "compiledOption (\<lambda>opts. (BuildOptions.Squash opts, BuildOptions.Layers opts))
     (runEvents (Execute exampleWorld False [(''squash'', BoolValue False)] [''/tmp/ctx'']
        exampleState)) = Some (False, True)"
  by code_simp

text \<open>C2, amended. Whenever \<open>build\<close> hands options to the build engine: if \<open>squash\<close>
  was set on the command line with the value true, the options have \<open>Squash = False\<close>
  and \<open>Layers = False\<close>; if \<open>squash-all\<close> was set on the command line, they have
  \<open>Squash = True\<close> and \<open>Layers = False\<close>. (A run that reaches the engine has passed the
  conflict rule, so at most one of the three flags was set.)\<close>

theorem squash_true_and_squash_all_compiled:
  assumes "engineCall (fst (build w c args s)) = Some (files, opts)"
  shows "(Changed c ''squash'' \<and> Squash (buildOpts s) \<longrightarrow>
            \<not> BuildOptions.Squash opts \<and> \<not> BuildOptions.Layers opts) \<and>
         (Changed c ''squash-all'' \<longrightarrow>
            BuildOptions.Squash opts \<and> \<not> BuildOptions.Layers opts)"
proof -
  from build_engineCall(1,2) [OF assms]
  obtain lf s' where nc: "\<not> squashLayersConflict c"
    and t: "buildFlagsWrapperToOptions w c (ContextDirectory opts) lf s = (s', Inr opts)"
    by blast
  show ?thesis
    using nc toOptions_Inr(1,2) [OF t]
    by (auto simp add: squashRules_Squash squashRules_Layers squashLayersConflict_def)
qed

theorem squash_true_and_squash_all_compiled_witness:
  "Changed (commandWith {''squash''}) ''squash'' \<and>
   Squash (buildOpts (exampleState\<lparr>buildOpts := exampleFlags\<lparr>Squash := True, Layers := True\<rparr>\<rparr>)) \<and>
   compiledOption (\<lambda>opts. (BuildOptions.Squash opts, BuildOptions.Layers opts))
     (fst (build exampleWorld (commandWith {''squash''}) [''/tmp/ctx'']
        (exampleState\<lparr>buildOpts := exampleFlags\<lparr>Squash := True, Layers := True\<rparr>\<rparr>))) =
     Some (False, False) \<and>
   Changed (commandWith {''squash-all''}) ''squash-all'' \<and>
   compiledOption (\<lambda>opts. (BuildOptions.Squash opts, BuildOptions.Layers opts))
     (fst (build exampleWorld (commandWith {''squash-all''}) [''/tmp/ctx'']
        (exampleState\<lparr>buildOpts := exampleFlags\<lparr>SquashAll := True, Layers := True\<rparr>\<rparr>))) =
     Some (True, False)"
proof -
  let ?s1 = "exampleState\<lparr>buildOpts := exampleFlags\<lparr>Squash := True, Layers := True\<rparr>\<rparr>"
  let ?s2 = "exampleState\<lparr>buildOpts := exampleFlags\<lparr>SquashAll := True, Layers := True\<rparr>\<rparr>"
  have c1: "Changed (commandWith {''squash''}) ''squash''"
    and c2: "Changed (commandWith {''squash-all''}) ''squash-all''"
    and v1: "Squash (buildOpts ?s1)"
    by (simp_all add: Changed_def commandWith_def)
  have "engineCall (fst (build exampleWorld (commandWith {''squash''}) [''/tmp/ctx''] ?s1)) \<noteq> None"
    by code_simp
  then obtain files1 opts1 where
    e1: "engineCall (fst (build exampleWorld (commandWith {''squash''}) [''/tmp/ctx''] ?s1)) =
           Some (files1, opts1)"
    by auto
  have "engineCall (fst (build exampleWorld (commandWith {''squash-all''}) [''/tmp/ctx''] ?s2)) \<noteq> None"
    by code_simp
  then obtain files2 opts2 where
    e2: "engineCall (fst (build exampleWorld (commandWith {''squash-all''}) [''/tmp/ctx''] ?s2)) =
           Some (files2, opts2)"
    by auto
  from squash_true_and_squash_all_compiled [OF e1] c1 v1
  have r1: "\<not> BuildOptions.Squash opts1 \<and> \<not> BuildOptions.Layers opts1" by blast
  from squash_true_and_squash_all_compiled [OF e2] c2
  have r2: "BuildOptions.Squash opts2 \<and> \<not> BuildOptions.Layers opts2" by blast
  show ?thesis
    using c1 c2 v1 r1 r2 e1 e2 by (simp add: compiledOption_def)
qed

text \<open>C5. The translation of \<open>squash\<close> and \<open>squash-all\<close> (lines 299 to 307, repeated at
  lines 348 to 356) is idempotent: on every state of the flags, applying it to its own
  result changes nothing, so the second copy leaves \<open>Squash\<close> and \<open>Layers\<close> as the
  first one set them.\<close>

theorem squashRules_idempotent:
  "squashRules c (squashRules c flags) = squashRules c flags"
  by (simp add: squashRules_def)

text \<open>C10. Whenever \<open>build\<close> hands options to the build engine: if \<open>squash-all\<close> was
  set on the command line with the value false, the options still have \<open>Squash = True\<close>
  and \<open>Layers = False\<close>; if \<open>squash\<close> was set on the command line with the value
  false, \<open>Squash\<close> and \<open>Layers\<close> of the options are those of the flags, untouched.\<close>

theorem squash_all_ignores_value_squash_needs_true:
  assumes "engineCall (fst (build w c args s)) = Some (files, opts)"
  shows "(Changed c ''squash-all'' \<and> \<not> SquashAll (buildOpts s) \<longrightarrow>
            BuildOptions.Squash opts \<and> \<not> BuildOptions.Layers opts) \<and>
         (Changed c ''squash'' \<and> \<not> Squash (buildOpts s) \<longrightarrow>
            BuildOptions.Squash opts = Squash (buildOpts s) \<and>
            BuildOptions.Layers opts = Layers (buildOpts s))"
proof -
  from build_engineCall(1,2) [OF assms]
  obtain lf s' where nc: "\<not> squashLayersConflict c"
    and t: "buildFlagsWrapperToOptions w c (ContextDirectory opts) lf s = (s', Inr opts)"
    by blast
  show ?thesis
    using nc toOptions_Inr(1,2) [OF t]
    by (auto simp add: squashRules_Squash squashRules_Layers squashLayersConflict_def)
qed

theorem squash_all_ignores_value_squash_needs_true_witness:
  "Changed (commandWith {''squash-all''}) ''squash-all'' \<and>
   \<not> SquashAll (buildOpts (exampleState\<lparr>buildOpts := exampleFlags\<lparr>Layers := True\<rparr>\<rparr>)) \<and>
   compiledOption (\<lambda>opts. (BuildOptions.Squash opts, BuildOptions.Layers opts))
     (fst (build exampleWorld (commandWith {''squash-all''}) [''/tmp/ctx'']
        (exampleState\<lparr>buildOpts := exampleFlags\<lparr>Layers := True\<rparr>\<rparr>))) =
     Some (True, False) \<and>
   Changed (commandWith {''squash''}) ''squash'' \<and>
   \<not> Squash (buildOpts (exampleState\<lparr>buildOpts := exampleFlags\<lparr>Layers := True\<rparr>\<rparr>)) \<and>
   compiledOption (\<lambda>opts. (BuildOptions.Squash opts, BuildOptions.Layers opts))
     (fst (build exampleWorld (commandWith {''squash''}) [''/tmp/ctx'']
        (exampleState\<lparr>buildOpts := exampleFlags\<lparr>Layers := True\<rparr>\<rparr>))) =
     Some (False, True)"
proof -
  let ?s = "exampleState\<lparr>buildOpts := exampleFlags\<lparr>Layers := True\<rparr>\<rparr>"
  have c: "Changed (commandWith {''squash-all''}) ''squash-all''"
      "Changed (commandWith {''squash''}) ''squash''"
      "\<not> SquashAll (buildOpts ?s)" "\<not> Squash (buildOpts ?s)" "Layers (buildOpts ?s)"
    by (simp_all add: Changed_def example_defs)
  have "engineCall (fst (build exampleWorld (commandWith {''squash-all''}) [''/tmp/ctx''] ?s)) \<noteq> None"
    by code_simp
  then obtain files1 opts1 where
    e1: "engineCall (fst (build exampleWorld (commandWith {''squash-all''}) [''/tmp/ctx''] ?s)) =
           Some (files1, opts1)"
    by auto
  have "engineCall (fst (build exampleWorld (commandWith {''squash''}) [''/tmp/ctx''] ?s)) \<noteq> None"
    by code_simp
  then obtain files2 opts2 where
    e2: "engineCall (fst (build exampleWorld (commandWith {''squash''}) [''/tmp/ctx''] ?s)) =
           Some (files2, opts2)"
    by auto
  from squash_all_ignores_value_squash_needs_true [OF e1] c
  have r1: "BuildOptions.Squash opts1 \<and> \<not> BuildOptions.Layers opts1" by blast
  from squash_all_ignores_value_squash_needs_true [OF e2] c
  have r2: "\<not> BuildOptions.Squash opts2 \<and> BuildOptions.Layers opts2" by blast
  show ?thesis
    using c r1 r2 e1 e2 by (simp add: compiledOption_def)
qed

subsection \<open>The pull policy\<close>




subsection \<open>The build arguments\<close>

lemma addBuildArg_apply:
  "addBuildArg m arg key =
     (if buildArgKey arg = key
      then (if CHR ''='' \<in> set arg then Some (buildArgValue arg) else None)
      else m key)"
proof (cases "CHR ''='' \<in> set arg")
  case True
  then show ?thesis
    by (simp add: addBuildArg_def buildArgKey_def buildArgValue_def numeral_2_eq_2 Let_def)
next
  case False
  then have tw: "takeWhile (\<lambda>c. c \<noteq> CHR ''='') arg = arg"
    by auto
  show ?thesis
    using False
    by (auto simp add: tw addBuildArg_def buildArgKey_def buildArgValue_def numeral_2_eq_2 Let_def)
qed

lemma foldl_addBuildArg:
  "foldl addBuildArg m args key =
     (case lastBuildArgFor key args of
        None \<Rightarrow> m key
      | Some arg \<Rightarrow> if CHR ''='' \<in> set arg then Some (buildArgValue arg) else None)"
  by (induction args rule: rev_induct) (simp_all add: lastBuildArgFor_def addBuildArg_apply)

text \<open>C8. Whenever \<open>build\<close> hands options to the build engine and \<open>build-arg\<close> was
  set on the command line, the mapping \<open>Args\<close> of the options is decided, for every key,
  by the last of the values given, in their order, that has this key: a value
  \<open>KEY=VALUE\<close> maps the key to \<open>VALUE\<close> (the text after the first equals sign), a bare
  \<open>KEY\<close> leaves the key without a value, whatever was given for it before; a key that
  no value has is not in the mapping.\<close>

theorem build_args_last_occurrence:
  assumes "engineCall (fst (build w c args s)) = Some (files, opts)"
    and "Changed c ''build-arg''"
  shows "Args opts key =
           (case lastBuildArgFor key (BuildArg (buildOpts s)) of
              None \<Rightarrow> None
            | Some arg \<Rightarrow> if CHR ''='' \<in> set arg then Some (buildArgValue arg) else None)"
proof -
  from build_engineCall(2) [OF assms(1)]
  obtain lf s' where
    t: "buildFlagsWrapperToOptions w c (ContextDirectory opts) lf s = (s', Inr opts)"
    by blast
  show ?thesis
    using toOptions_Inr(4) [OF t] assms(2)
    by (simp add: buildArgsOf_def foldl_addBuildArg)
qed

theorem build_args_last_occurrence_witness:
  "Changed (commandWith {''build-arg''}) ''build-arg'' \<and>
   compiledOption (\<lambda>opts. (Args opts ''A'', Args opts ''B'', Args opts ''C''))
     (fst (build exampleWorld (commandWith {''build-arg''}) [''/tmp/ctx'']
        (exampleState\<lparr>buildOpts := exampleFlags\<lparr>BuildArg := [''A=1'', ''B=2'', ''A=3=4'', ''B'']\<rparr>\<rparr>))) =
     Some (Some ''3=4'', None, None)"
proof -
  let ?s = "exampleState\<lparr>buildOpts := exampleFlags\<lparr>BuildArg := [''A=1'', ''B=2'', ''A=3=4'', ''B'']\<rparr>\<rparr>"
  let ?c = "commandWith {''build-arg''}"
  have c: "Changed ?c ''build-arg''"
    by (simp add: Changed_def commandWith_def)
  have "engineCall (fst (build exampleWorld ?c [''/tmp/ctx''] ?s)) \<noteq> None"
    by code_simp
  then obtain files opts where
    e: "engineCall (fst (build exampleWorld ?c [''/tmp/ctx''] ?s)) = Some (files, opts)"
    by auto
  have a: "lastBuildArgFor ''A'' (BuildArg (buildOpts ?s)) = Some ''A=3=4''"
      "lastBuildArgFor ''B'' (BuildArg (buildOpts ?s)) = Some ''B''"
      "lastBuildArgFor ''C'' (BuildArg (buildOpts ?s)) = None"
      "buildArgValue ''A=3=4'' = ''3=4''"
    by code_simp+
  have "Args opts ''A'' = Some ''3=4''"
    using build_args_last_occurrence [OF e c, of "''A''"] by (simp only: a) (simp add: a(4))
  moreover have "Args opts ''B'' = None"
    using build_args_last_occurrence [OF e c, of "''B''"] by (simp only: a) (simp add: a(4))
  moreover have "Args opts ''C'' = None"
    using build_args_last_occurrence [OF e c, of "''C''"] by (simp only: a) (simp add: a(4))
  ultimately show ?thesis
    using c e by (simp add: compiledOption_def)
qed

subsection \<open>The format of the manifest\<close>

lemma toOptions_format:
  assumes "parsersSucceed w c (buildOpts s)"
  shows "map_sum id OutputFormat (snd (buildFlagsWrapperToOptions w c dir lf s)) =
           outputFormat w (ToLower (unicode_ToLower w) (Format (buildOpts s)))"
proof -
  obtain ns where ns: "parse_NamespaceOptions w = Inr ns"
    using assms by (cases "parse_NamespaceOptions w") (simp_all add: parsersSucceed_def)
  obtain iso where iso: "parse_IsolationOption w (Isolation (buildOpts s)) = Inr iso"
    using assms by (cases "parse_IsolationOption w (Isolation (buildOpts s))")
      (simp_all add: parsersSucceed_def)
  obtain idm where idm: "parse_IDMappingOptions w iso = Inr idm"
    using assms iso by (cases "parse_IDMappingOptions w iso") (simp_all add: parsersSucceed_def)
  obtain sc where sc: "parse_SystemContextFromOptions w = Inr sc"
    using assms by (cases "parse_SystemContextFromOptions w") (simp_all add: parsersSucceed_def)
  have "\<exists>m. Changed c ''memory'' \<longrightarrow> units_RAMInBytes w (Memory (buildOpts s)) = Inr m"
    using assms by (cases "units_RAMInBytes w (Memory (buildOpts s))")
      (auto simp add: parsersSucceed_def)
  then obtain m where
    m: "Changed c ''memory'' \<Longrightarrow> units_RAMInBytes w (Memory (buildOpts s)) = Inr m"
    by blast
  have "\<exists>m. Changed c ''memory-swap'' \<longrightarrow>
          units_RAMInBytes w (MemorySwap (buildOpts s)) = Inr m"
    using assms by (cases "units_RAMInBytes w (MemorySwap (buildOpts s))")
      (auto simp add: parsersSucceed_def)
  then obtain ms where
    ms: "Changed c ''memory-swap'' \<Longrightarrow> units_RAMInBytes w (MemorySwap (buildOpts s)) = Inr ms"
    by blast
  show ?thesis
    unfolding buildFlagsWrapperToOptions_def Let_def split_beta
    by (simp add: ns iso idm sc m ms split: sum.splits)
qed

text \<open>C9. Let \<open>fmt\<close> be the format flag in lower case. When the parsers of the other
  packages accept the flags, \<open>buildFlagsWrapperToOptions\<close> returns options with the OCI v1
  manifest type if \<open>fmt\<close> starts with \<^verbatim>\<open>buildah.OCI\<close>, options with the Docker v2
  manifest type if it does not but starts with \<^verbatim>\<open>buildah.DOCKER\<close>, and the error
  \<open>unrecognized image type\<close>, carrying \<open>fmt\<close>, for every other value. For those other
  values the function returns no options whatever the parsers do. (With the values of
  buildah, \<open>oci\<close> and \<open>docker\<close>, no string starts with both.)\<close>

theorem format_families:
  fixes w c dir lf s
  defines "fmt \<equiv> ToLower (unicode_ToLower w) (Format (buildOpts s))"
  defines "r \<equiv> buildFlagsWrapperToOptions w c dir lf s"
  shows "(parsersSucceed w c (buildOpts s) \<and> HasPrefix fmt (buildah_OCI w) \<longrightarrow>
            map_option OutputFormat (compiled r) = Some (buildah_OCIv1ImageManifest w)) \<and>
         (parsersSucceed w c (buildOpts s) \<and> \<not> HasPrefix fmt (buildah_OCI w) \<and>
            HasPrefix fmt (buildah_DOCKER w) \<longrightarrow>
            map_option OutputFormat (compiled r) = Some (buildah_Dockerv2ImageManifest w)) \<and>
         (parsersSucceed w c (buildOpts s) \<and> \<not> HasPrefix fmt (buildah_OCI w) \<and>
            \<not> HasPrefix fmt (buildah_DOCKER w) \<longrightarrow>
            snd r = Inl (UnrecognizedImageType fmt)) \<and>
         (\<not> HasPrefix fmt (buildah_OCI w) \<and> \<not> HasPrefix fmt (buildah_DOCKER w) \<longrightarrow>
            compiled r = None)"
proof -
  have ok: "map_sum id OutputFormat (snd r) = outputFormat w fmt"
    if "parsersSucceed w c (buildOpts s)"
    using toOptions_format [OF that] by (simp add: r_def fmt_def)
  have bad: "compiled r = None"
    if "\<not> HasPrefix fmt (buildah_OCI w)" and "\<not> HasPrefix fmt (buildah_DOCKER w)"
  proof (cases "snd r")
    case (Inl e)
    then show ?thesis by (simp add: compiled_def)
  next
    case (Inr opts)
    then have "buildFlagsWrapperToOptions w c dir lf s = (fst r, Inr opts)"
      by (simp add: r_def prod_eq_iff)
    from toOptions_Inr(6) [OF this] that show ?thesis
      by (simp add: outputFormat_def fmt_def)
  qed
  show ?thesis
    using ok bad
    by (cases "snd r") (auto simp add: outputFormat_def compiled_def)
qed

theorem format_families_witness:
  "parsersSucceed exampleWorld (commandWith {''format''}) exampleFlags \<and>
   map_option OutputFormat
     (compiled (buildFlagsWrapperToOptions exampleWorld (commandWith {''format''}) ''/tmp/ctx'' None
        (exampleState\<lparr>buildOpts := exampleFlags\<lparr>Format := ''OCI''\<rparr>\<rparr>))) =
     Some ''application/vnd.oci.image.manifest.v1+json'' \<and>
   map_option OutputFormat
     (compiled (buildFlagsWrapperToOptions exampleWorld (commandWith {''format''}) ''/tmp/ctx'' None
        (exampleState\<lparr>buildOpts := exampleFlags\<lparr>Format := ''Docker''\<rparr>\<rparr>))) =
     Some ''application/vnd.docker.distribution.manifest.v2+json'' \<and>
   snd (buildFlagsWrapperToOptions exampleWorld (commandWith {''format''}) ''/tmp/ctx'' None
        (exampleState\<lparr>buildOpts := exampleFlags\<lparr>Format := ''Banana''\<rparr>\<rparr>)) =
     Inl (UnrecognizedImageType ''banana'')"
proof -
  let ?c = "commandWith {''format''}"
  let ?s = "\<lambda>f. exampleState\<lparr>buildOpts := exampleFlags\<lparr>Format := f\<rparr>\<rparr>"
  let ?fmt = "\<lambda>f. ToLower (unicode_ToLower exampleWorld) (Format (buildOpts (?s f)))"
  have p0: "parsersSucceed exampleWorld ?c exampleFlags"
    by code_simp
  have p: "parsersSucceed exampleWorld ?c (buildOpts (?s ''OCI''))"
      "parsersSucceed exampleWorld ?c (buildOpts (?s ''Docker''))"
      "parsersSucceed exampleWorld ?c (buildOpts (?s ''Banana''))"
    by code_simp+
  have h: "HasPrefix (?fmt ''OCI'') (buildah_OCI exampleWorld)"
      "\<not> HasPrefix (?fmt ''Docker'') (buildah_OCI exampleWorld)"
      "HasPrefix (?fmt ''Docker'') (buildah_DOCKER exampleWorld)"
      "\<not> HasPrefix (?fmt ''Banana'') (buildah_OCI exampleWorld)"
      "\<not> HasPrefix (?fmt ''Banana'') (buildah_DOCKER exampleWorld)"
    by code_simp+
  have v: "buildah_OCIv1ImageManifest exampleWorld = ''application/vnd.oci.image.manifest.v1+json''"
      "buildah_Dockerv2ImageManifest exampleWorld =
         ''application/vnd.docker.distribution.manifest.v2+json''"
      "?fmt ''Banana'' = ''banana''"
    by code_simp+
  note f1 = format_families [of exampleWorld ?c "?s ''OCI''" "''/tmp/ctx''" None]
  note f2 = format_families [of exampleWorld ?c "?s ''Docker''" "''/tmp/ctx''" None]
  note f3 = format_families [of exampleWorld ?c "?s ''Banana''" "''/tmp/ctx''" None]
  from f1 p(1) h(1) have r1: "map_option OutputFormat
     (compiled (buildFlagsWrapperToOptions exampleWorld ?c ''/tmp/ctx'' None (?s ''OCI''))) =
     Some (buildah_OCIv1ImageManifest exampleWorld)" by blast
  from f2 p(2) h(2,3) have r2: "map_option OutputFormat
     (compiled (buildFlagsWrapperToOptions exampleWorld ?c ''/tmp/ctx'' None (?s ''Docker''))) =
     Some (buildah_Dockerv2ImageManifest exampleWorld)" by blast
  from f3 p(3) h(4,5) have r3:
    "snd (buildFlagsWrapperToOptions exampleWorld ?c ''/tmp/ctx'' None (?s ''Banana'')) =
     Inl (UnrecognizedImageType (?fmt ''Banana''))" by blast
  show ?thesis
    using p0 r1 r2 r3 unfolding v by blast
qed

subsection \<open>The context directory and the container files\<close>

lemma home_all_remote:
  "list_all remoteContainerfile fs \<Longrightarrow> homeOfFirstLocalContainerfile w fs = ([], Inr [])"
  by (induction fs) simp_all

lemma home_first_local:
  "list_all remoteContainerfile rs \<Longrightarrow> \<not> remoteContainerfile f \<Longrightarrow>
   homeOfFirstLocalContainerfile w (rs @ f # rest) =
     (case filepath_Abs w f of
        Inl err \<Rightarrow> ([EvAbs f], Inl (DeterminingPathToFile f err))
      | Inr absFile \<Rightarrow> ([EvAbs f], Inr (filepath_Dir w absFile)))"
  by (induction rs) simp_all

lemma home_events:
  "ev \<in> set (fst (homeOfFirstLocalContainerfile w fs)) \<Longrightarrow> \<exists>x. ev = EvAbs x"
  by (induction fs) (auto split: sum.splits if_splits)

lemma determineContextDir_events:
  assumes "ev \<in> set (fst (determineContextDir w args cfs))"
  shows "(\<exists>x. ev = EvTempDirForURL x) \<or> (\<exists>x. ev = EvAbs x)"
proof (cases args)
  case Nil
  obtain evs r where h: "homeOfFirstLocalContainerfile w cfs = (evs, r)"
    by (cases "homeOfFirstLocalContainerfile w cfs")
  have "ev \<in> set evs"
    using assms Nil h by (cases r) (simp_all add: determineContextDir_def)
  with home_events [of ev w cfs] h show ?thesis by simp
next
  case (Cons a as)
  with assms show ?thesis
    by (auto simp add: determineContextDir_def split: prod.splits sum.splits if_splits)
qed

lemma build_FileExists_events:
  assumes "EvFileExists p \<in> set (fst (build w c args s))"
  shows "\<exists>evs dir tmp.
           determineContextDir w args (containerFilesOfCLI (File (buildOpts s))) =
             (evs, Inr (dir, tmp)) \<and>
           p = filepath_Join w dir ''Containerfile''"
proof -
  let ?cfs = "containerFilesOfCLI (File (buildOpts s))"
  have nc: "\<not> squashLayersConflict c"
    using assms by (auto simp add: build_def)
  obtain evs1 r1 where d: "determineContextDir w args ?cfs = (evs1, r1)"
    by (cases "determineContextDir w args ?cfs")
  have e1: "EvFileExists p \<notin> set evs1"
    using determineContextDir_events [of "EvFileExists p" w args ?cfs] d by auto
  obtain dir tmp where r1: "r1 = Inr (dir, tmp)"
    using assms nc d e1 by (cases r1) (auto simp add: build_def)
  have dir: "dir \<noteq> []" "utils_IsDir w dir"
    using assms nc d e1 r1 by (auto simp add: build_def Let_def split: if_splits)
  have "EvFileExists p \<in> set (fst (defaultContainerfile w dir ?cfs))"
    using assms nc d e1 r1 dir
    by (auto simp add: build_def Let_def openLogfile_def
             split: prod.splits sum.splits if_splits option.splits)
  then have "p = filepath_Join w dir ''Containerfile''"
    by (simp add: defaultContainerfile_def split: if_splits)
  with d r1 show ?thesis by blast
qed

text \<open>C6. Take a run of \<open>build\<close> without a context argument that passes the conflict
  rule, and the container files of the command line in their order (\<open>-\<close> standing for
  \<open>/dev/stdin\<close>). If every one of them starts with \<open>http://\<close>, \<open>https://\<close>, \<open>git://\<close> or
  \<open>github.com/\<close>, or there is none, \<open>build\<close> fails with the error \<open>no context
  directory\<close>, having made no call outside the process. Otherwise let \<open>f\<close> be the first
  that does not, with \<open>absFile\<close> its absolute path: the context directory is
  \<^verbatim>\<open>filepath.Dir(absFile)\<close> (which is never empty in Go); if that is not a directory,
  \<open>build\<close> fails with the error \<open>context must be a directory\<close>, and every set of options
  handed to the build engine has it as its context directory.\<close>

theorem context_of_first_local_containerfile:
  fixes w c s
  defines "cfs \<equiv> containerFilesOfCLI (File (buildOpts s))"
  assumes nc: "\<not> squashLayersConflict c"
  shows "(list_all remoteContainerfile cfs \<longrightarrow>
            build w c [] s = ([], s, Some NoContextDirectory)) \<and>
         (cfs = rs @ f # rest \<and> list_all remoteContainerfile rs \<and> \<not> remoteContainerfile f \<and>
          filepath_Abs w f = Inr absFile \<and> filepath_Dir w absFile \<noteq> [] \<longrightarrow>
            determineContextDir w [] cfs = ([EvAbs f], Inr (filepath_Dir w absFile, [])) \<and>
            (\<not> utils_IsDir w (filepath_Dir w absFile) \<longrightarrow>
               build w c [] s =
                 ([EvAbs f, EvIsDir (filepath_Dir w absFile)], s,
                  Some (ContextMustBeDirectory (filepath_Dir w absFile)))) \<and>
            (\<forall>files opts. engineCall (fst (build w c [] s)) = Some (files, opts) \<longrightarrow>
               ContextDirectory opts = filepath_Dir w absFile))"
proof (intro conjI impI)
  assume "list_all remoteContainerfile cfs"
  then have "determineContextDir w [] cfs = ([], Inr ([], []))"
    by (simp add: determineContextDir_def home_all_remote)
  then show "build w c [] s = ([], s, Some NoContextDirectory)"
    using nc by (simp add: build_def cfs_def)
next
  assume a: "cfs = rs @ f # rest \<and> list_all remoteContainerfile rs \<and> \<not> remoteContainerfile f \<and>
          filepath_Abs w f = Inr absFile \<and> filepath_Dir w absFile \<noteq> []"
  then have "homeOfFirstLocalContainerfile w cfs = ([EvAbs f], Inr (filepath_Dir w absFile))"
    by (simp add: home_first_local)
  then show d: "determineContextDir w [] cfs = ([EvAbs f], Inr (filepath_Dir w absFile, []))"
    by (simp add: determineContextDir_def)
  show "build w c [] s =
          ([EvAbs f, EvIsDir (filepath_Dir w absFile)], s,
           Some (ContextMustBeDirectory (filepath_Dir w absFile)))"
    if "\<not> utils_IsDir w (filepath_Dir w absFile)"
    using nc d a that by (simp add: build_def cfs_def)
  show "\<forall>files opts. engineCall (fst (build w c [] s)) = Some (files, opts) \<longrightarrow>
          ContextDirectory opts = filepath_Dir w absFile"
  proof (intro allI impI)
    fix files opts
    assume "engineCall (fst (build w c [] s)) = Some (files, opts)"
    from build_engineCall(3) [OF this] d show "ContextDirectory opts = filepath_Dir w absFile"
      by (auto simp add: cfs_def)
  qed
qed

theorem context_of_first_local_containerfile_witness:
  "build exampleWorld (commandWith {''file''}) []
     (exampleState\<lparr>buildOpts := exampleFlags\<lparr>File := [''https://example.org/Containerfile'']\<rparr>\<rparr>) =
     ([], exampleState\<lparr>buildOpts := exampleFlags\<lparr>File := [''https://example.org/Containerfile'']\<rparr>\<rparr>,
      Some NoContextDirectory) \<and>
   fst (build exampleWorld (commandWith {''file''}) []
     (exampleState\<lparr>buildOpts := exampleFlags\<lparr>File := [''git://example.org/r'', ''sub/Containerfile'']\<rparr>\<rparr>)) =
     [EvAbs ''sub/Containerfile'', EvIsDir ''/work/sub''] \<and>
   snd (snd (build exampleWorld (commandWith {''file''}) []
     (exampleState\<lparr>buildOpts := exampleFlags\<lparr>File := [''git://example.org/r'', ''sub/Containerfile'']\<rparr>\<rparr>))) =
     Some (ContextMustBeDirectory ''/work/sub'') \<and>
   compiledOption ContextDirectory (fst (build exampleWorld (commandWith {''file''}) []
     (exampleState\<lparr>buildOpts := exampleFlags\<lparr>File := [''github.com/a/b'', ''Containerfile.simple'', ''/tmp/ctx/Containerfile'']\<rparr>\<rparr>))) =
     Some ''/work''"
proof -
  let ?c = "commandWith {''file''}"
  let ?s = "\<lambda>fs. exampleState\<lparr>buildOpts := exampleFlags\<lparr>File := fs\<rparr>\<rparr>"
  have nc: "\<not> squashLayersConflict ?c"
    by code_simp
  have r1: "build exampleWorld ?c [] (?s [''https://example.org/Containerfile'']) =
     ([], ?s [''https://example.org/Containerfile''], Some NoContextDirectory)"
  proof -
    have "list_all remoteContainerfile
            (containerFilesOfCLI (File (buildOpts (?s [''https://example.org/Containerfile'']))))"
      by code_simp
    with context_of_first_local_containerfile [OF nc,
        where s = "?s [''https://example.org/Containerfile'']" and w = exampleWorld]
    show ?thesis by blast
  qed
  have r2: "build exampleWorld ?c [] (?s [''git://example.org/r'', ''sub/Containerfile'']) =
     ([EvAbs ''sub/Containerfile'', EvIsDir ''/work/sub''],
      ?s [''git://example.org/r'', ''sub/Containerfile''],
      Some (ContextMustBeDirectory ''/work/sub''))"
  proof -
    have h: "containerFilesOfCLI (File (buildOpts (?s [''git://example.org/r'', ''sub/Containerfile'']))) =
            [''git://example.org/r''] @ ''sub/Containerfile'' # []"
        "list_all remoteContainerfile [''git://example.org/r'']"
        "\<not> remoteContainerfile ''sub/Containerfile''"
        "filepath_Abs exampleWorld ''sub/Containerfile'' = Inr ''/work/sub/Containerfile''"
        "filepath_Dir exampleWorld ''/work/sub/Containerfile'' \<noteq> []"
        "\<not> utils_IsDir exampleWorld (filepath_Dir exampleWorld ''/work/sub/Containerfile'')"
      by code_simp+
    have v: "filepath_Dir exampleWorld ''/work/sub/Containerfile'' = ''/work/sub''"
      by code_simp
    from context_of_first_local_containerfile [OF nc,
        where s = "?s [''git://example.org/r'', ''sub/Containerfile'']"
          and rs = "[''git://example.org/r'']" and f = "''sub/Containerfile''" and rest = "[]"
          and w = exampleWorld and absFile = "''/work/sub/Containerfile''"] h
    have "build exampleWorld ?c [] (?s [''git://example.org/r'', ''sub/Containerfile'']) =
       ([EvAbs ''sub/Containerfile'',
         EvIsDir (filepath_Dir exampleWorld ''/work/sub/Containerfile'')],
        ?s [''git://example.org/r'', ''sub/Containerfile''],
        Some (ContextMustBeDirectory (filepath_Dir exampleWorld ''/work/sub/Containerfile'')))"
      by blast
    then show ?thesis unfolding v .
  qed
  have r3: "compiledOption ContextDirectory (fst (build exampleWorld ?c []
      (?s [''github.com/a/b'', ''Containerfile.simple'', ''/tmp/ctx/Containerfile'']))) = Some ''/work''"
  proof -
    let ?fs = "[''github.com/a/b'', ''Containerfile.simple'', ''/tmp/ctx/Containerfile'']"
    have h: "containerFilesOfCLI (File (buildOpts (?s ?fs))) =
            [''github.com/a/b''] @ ''Containerfile.simple'' # [''/tmp/ctx/Containerfile'']"
        "list_all remoteContainerfile [''github.com/a/b'']"
        "\<not> remoteContainerfile ''Containerfile.simple''"
        "filepath_Abs exampleWorld ''Containerfile.simple'' = Inr ''/work/Containerfile.simple''"
        "filepath_Dir exampleWorld ''/work/Containerfile.simple'' \<noteq> []"
      by code_simp+
    have v: "filepath_Dir exampleWorld ''/work/Containerfile.simple'' = ''/work''"
      by code_simp
    have "engineCall (fst (build exampleWorld ?c [] (?s ?fs))) \<noteq> None"
      by code_simp
    then obtain files opts where
      e: "engineCall (fst (build exampleWorld ?c [] (?s ?fs))) = Some (files, opts)"
      by auto
    from context_of_first_local_containerfile [OF nc,
        where s = "?s ?fs" and rs = "[''github.com/a/b'']" and f = "''Containerfile.simple''"
          and rest = "[''/tmp/ctx/Containerfile'']" and w = exampleWorld
          and absFile = "''/work/Containerfile.simple''"] h e
    have "ContextDirectory opts = filepath_Dir exampleWorld ''/work/Containerfile.simple''"
      by blast
    then show ?thesis using e unfolding v by (simp add: compiledOption_def)
  qed
  show ?thesis using r1 r2 r3 by simp
qed

text \<open>C7. Whenever \<open>build\<close> hands options to the build engine, the list of container
  files it hands over with them is not empty. It is the list of the command line when
  that named any file. When it named none, the list is the single path
  \<open>Containerfile\<close> in the context directory if that file exists there, and else the single
  path \<open>Dockerfile\<close> in the context directory, whether that exists or not: the only
  file \<open>build\<close> asks the existence of is the \<open>Containerfile\<close>.\<close>

theorem containerfiles_of_successful_build:
  assumes "engineCall (fst (build w c args s)) = Some (files, opts)"
  shows "files \<noteq> [] \<and>
         (File (buildOpts s) \<noteq> [] \<longrightarrow> files = containerFilesOfCLI (File (buildOpts s))) \<and>
         (File (buildOpts s) = [] \<and>
          utils_FileExists w (filepath_Join w (ContextDirectory opts) ''Containerfile'') \<longrightarrow>
            files = [filepath_Join w (ContextDirectory opts) ''Containerfile'']) \<and>
         (File (buildOpts s) = [] \<and>
          \<not> utils_FileExists w (filepath_Join w (ContextDirectory opts) ''Containerfile'') \<longrightarrow>
            files = [filepath_Join w (ContextDirectory opts) ''Dockerfile'']) \<and>
         (\<forall>p. EvFileExists p \<in> set (fst (build w c args s)) \<longrightarrow>
            p = filepath_Join w (ContextDirectory opts) ''Containerfile'')"
proof -
  let ?cfs = "containerFilesOfCLI (File (buildOpts s))"
  have f: "files = snd (defaultContainerfile w (ContextDirectory opts) ?cfs)"
    by (rule build_engineCall(4) [OF assms])
  have e: "?cfs = [] \<longleftrightarrow> File (buildOpts s) = []"
    by (simp add: containerFilesOfCLI_def)
  have p: "p = filepath_Join w (ContextDirectory opts) ''Containerfile''"
    if "EvFileExists p \<in> set (fst (build w c args s))" for p
    using build_FileExists_events [OF that] build_engineCall(3) [OF assms] by auto
  show ?thesis
    using f e p by (auto simp add: defaultContainerfile_def)
qed

theorem containerfiles_of_successful_build_witness:
  "map_option fst (engineCall (fst (build exampleWorld (commandWith {}) [''/tmp/ctx''] exampleState))) =
     Some [''/tmp/ctx/Containerfile''] \<and>
   map_option fst (engineCall (fst (build exampleWorld (commandWith {}) [''/work''] exampleState))) =
     Some [''/work/Dockerfile''] \<and>
   map_option fst (engineCall (fst (build exampleWorld (commandWith {''file''}) [''/work'']
       (exampleState\<lparr>buildOpts := exampleFlags\<lparr>File := [''-'', ''b/Containerfile'']\<rparr>\<rparr>)))) =
     Some [''/dev/stdin'', ''b/Containerfile'']"
proof -
  let ?c = "commandWith {}"
  let ?s3 = "exampleState\<lparr>buildOpts := exampleFlags\<lparr>File := [''-'', ''b/Containerfile'']\<rparr>\<rparr>"
  have "engineCall (fst (build exampleWorld ?c [''/tmp/ctx''] exampleState)) \<noteq> None"
    by code_simp
  then obtain files1 opts1 where
    e1: "engineCall (fst (build exampleWorld ?c [''/tmp/ctx''] exampleState)) = Some (files1, opts1)"
    by auto
  have d1: "compiledOption ContextDirectory (fst (build exampleWorld ?c [''/tmp/ctx''] exampleState)) =
              Some ''/tmp/ctx''"
    by code_simp
  have c1: "ContextDirectory opts1 = ''/tmp/ctx''"
    using d1 e1 by (simp add: compiledOption_def)
  have h1: "File (buildOpts exampleState) = []"
      "utils_FileExists exampleWorld (filepath_Join exampleWorld ''/tmp/ctx'' ''Containerfile'')"
      "filepath_Join exampleWorld ''/tmp/ctx'' ''Containerfile'' = ''/tmp/ctx/Containerfile''"
    by code_simp+
  from containerfiles_of_successful_build [OF e1] h1
  have r1: "files1 = [''/tmp/ctx/Containerfile'']"
    unfolding c1 by simp
  have "engineCall (fst (build exampleWorld ?c [''/work''] exampleState)) \<noteq> None"
    by code_simp
  then obtain files2 opts2 where
    e2: "engineCall (fst (build exampleWorld ?c [''/work''] exampleState)) = Some (files2, opts2)"
    by auto
  have d2: "compiledOption ContextDirectory (fst (build exampleWorld ?c [''/work''] exampleState)) =
              Some ''/work''"
    by code_simp
  have c2: "ContextDirectory opts2 = ''/work''"
    using d2 e2 by (simp add: compiledOption_def)
  have h2: "\<not> utils_FileExists exampleWorld (filepath_Join exampleWorld ''/work'' ''Containerfile'')"
      "filepath_Join exampleWorld ''/work'' ''Dockerfile'' = ''/work/Dockerfile''"
    by code_simp+
  from containerfiles_of_successful_build [OF e2] h1(1) h2
  have r2: "files2 = [''/work/Dockerfile'']"
    unfolding c2 by simp
  have "engineCall (fst (build exampleWorld (commandWith {''file''}) [''/work''] ?s3)) \<noteq> None"
    by code_simp
  then obtain files3 opts3 where
    e3: "engineCall (fst (build exampleWorld (commandWith {''file''}) [''/work''] ?s3)) =
           Some (files3, opts3)"
    by auto
  have h3: "File (buildOpts ?s3) \<noteq> []"
      "containerFilesOfCLI (File (buildOpts ?s3)) = [''/dev/stdin'', ''b/Containerfile'']"
    by code_simp+
  from containerfiles_of_successful_build [OF e3] h3
  have r3: "files3 = [''/dev/stdin'', ''b/Containerfile'']"
    by simp
  show ?thesis
    using e1 e2 e3 r1 r2 r3 by simp
qed

subsection \<open>The default of layers\<close>

lemma asciiLower_f: "asciiLower c = CHR ''f'' \<longleftrightarrow> c = CHR ''f'' \<or> c = CHR ''F''"
  by (cases c) (auto simp add: asciiLower_def char_of_def bit_Suc_0_iff)

lemma asciiLower_a: "asciiLower c = CHR ''a'' \<longleftrightarrow> c = CHR ''a'' \<or> c = CHR ''A''"
  by (cases c) (auto simp add: asciiLower_def char_of_def bit_Suc_0_iff)

lemma asciiLower_l: "asciiLower c = CHR ''l'' \<longleftrightarrow> c = CHR ''l'' \<or> c = CHR ''L''"
  by (cases c) (auto simp add: asciiLower_def char_of_def bit_Suc_0_iff)

lemma asciiLower_s: "asciiLower c = CHR ''s'' \<longleftrightarrow> c = CHR ''s'' \<or> c = CHR ''S''"
  by (cases c) (auto simp add: asciiLower_def char_of_def bit_Suc_0_iff)

lemma asciiLower_e: "asciiLower c = CHR ''e'' \<longleftrightarrow> c = CHR ''e'' \<or> c = CHR ''E''"
  by (cases c) (auto simp add: asciiLower_def char_of_def bit_Suc_0_iff)

lemma map_asciiLower_false: "map asciiLower v = ''false'' \<longleftrightarrow> spellsFalse v"
proof
  assume "map asciiLower v = ''false''"
  then obtain c1 c2 c3 c4 c5 where v: "v = [c1, c2, c3, c4, c5]"
    and l: "asciiLower c1 = CHR ''f''" "asciiLower c2 = CHR ''a''" "asciiLower c3 = CHR ''l''"
      "asciiLower c4 = CHR ''s''" "asciiLower c5 = CHR ''e''"
    by (auto simp add: map_eq_Cons_conv)
  from l show "spellsFalse v"
    unfolding spellsFalse_def v asciiLower_f asciiLower_a asciiLower_l asciiLower_s asciiLower_e
    by blast
next
  assume "spellsFalse v"
  then obtain c1 c2 c3 c4 c5 where v: "v = [c1, c2, c3, c4, c5]"
    and l: "c1 = CHR ''f'' \<or> c1 = CHR ''F''" "c2 = CHR ''a'' \<or> c2 = CHR ''A''"
      "c3 = CHR ''l'' \<or> c3 = CHR ''L''" "c4 = CHR ''s'' \<or> c4 = CHR ''S''"
      "c5 = CHR ''e'' \<or> c5 = CHR ''E''"
    unfolding spellsFalse_def by blast
  from l have "asciiLower c1 = CHR ''f''" "asciiLower c2 = CHR ''a''" "asciiLower c3 = CHR ''l''"
      "asciiLower c4 = CHR ''s''" "asciiLower c5 = CHR ''e''"
    unfolding asciiLower_f asciiLower_a asciiLower_l asciiLower_s asciiLower_e by blast+
  then show "map asciiLower v = ''false''"
    unfolding v by simp
qed

lemma spellsFalse_isASCII:
  assumes "spellsFalse v"
  shows "isASCII v"
proof -
  from assms obtain c1 c2 c3 c4 c5 where v: "v = [c1, c2, c3, c4, c5]"
    and l: "c1 = CHR ''f'' \<or> c1 = CHR ''F''" "c2 = CHR ''a'' \<or> c2 = CHR ''A''"
      "c3 = CHR ''l'' \<or> c3 = CHR ''L''" "c4 = CHR ''s'' \<or> c4 = CHR ''S''"
      "c5 = CHR ''e'' \<or> c5 = CHR ''E''"
    unfolding spellsFalse_def by blast
  have "(of_char c1 :: nat) < 128" using l(1) by auto
  moreover have "(of_char c2 :: nat) < 128" using l(2) by auto
  moreover have "(of_char c3 :: nat) < 128" using l(3) by auto
  moreover have "(of_char c4 :: nat) < 128" using l(4) by auto
  moreover have "(of_char c5 :: nat) < 128" using l(5) by auto
  ultimately show ?thesis
    unfolding v isASCII_def by simp
qed

lemma useLayers_values: "useLayers w = ''true'' \<longleftrightarrow> useLayers w \<noteq> ''false''"
  by (simp add: useLayers_def Let_def)

lemma useLayers_false_iff:
  "useLayers w = ''false'' \<longleftrightarrow>
     (if isASCII (Getenv w ''BUILDAH_LAYERS'')
      then spellsFalse (Getenv w ''BUILDAH_LAYERS'') \<or> Getenv w ''BUILDAH_LAYERS'' = ''0''
      else unicode_ToLower w (Getenv w ''BUILDAH_LAYERS'') = ''false'')"
proof -
  have "isASCII ''0''"
    by (simp add: isASCII_def)
  then have "\<not> isASCII v \<Longrightarrow> v \<noteq> ''0''" for v
    by blast
  then show ?thesis
    by (auto simp add: useLayers_def Let_def ToLower_def map_asciiLower_false)
qed

lemma init_Layers: "Layers (buildOpts (snd (init w bc ic s))) \<longleftrightarrow> useLayers w = ''true''"
  by (simp add: init_def buildFlags_def Let_def split_beta)

lemma init_changed:
  "changed (fst (fst (init w bc ic s))) = changed bc"
  "changed (snd (fst (init w bc ic s))) = changed ic"
  by (simp_all add: init_def buildFlags_def Let_def split_beta)

lemma setModelledFlag_other_Layers:
  assumes "setModelledFlag name v ch f = Some f'" and "name \<noteq> ''layers''"
  shows "Layers f' = Layers f"
proof (cases v)
  case (BoolValue b)
  with assms show ?thesis
    unfolding setModelledFlag_def by (simp split: if_splits; force)
next
  case (StringValue x)
  with assms show ?thesis
    unfolding setModelledFlag_def by (simp split: if_splits; force)
next
  case (StringsValue xs)
  with assms show ?thesis
    unfolding setModelledFlag_def by (simp split: if_splits; force)
qed

lemma setFlag_other_Layers:
  assumes "setFlag w name v ch f = Some f'" and "name \<noteq> ''layers''"
  shows "Layers f' = Layers f"
proof (cases "name \<in> modelledFlags")
  case True
  with assms(1) have "setModelledFlag name v ch f = Some f'"
    by (simp add: setFlag_def)
  from setModelledFlag_other_Layers [OF this assms(2)] show ?thesis .
next
  case False
  with assms(1) have "f' = f"
    by (simp add: setFlag_def split: if_splits)
  then show ?thesis by simp
qed

lemma setFlag_layers:
  "setFlag w ''layers'' (BoolValue b) ch f = Some (f\<lparr>Layers := b\<rparr>)"
  by (simp add: setFlag_def modelledFlags_def setModelledFlag_def)

lemma ParseFlags_Cons_Some:
  assumes "ParseFlags w ((name, v) # given) c f = Some r"
  obtains f1 where "setFlag w name v (Changed c name) f = Some f1"
    and "ParseFlags w given (c\<lparr>changed := insert name (changed c)\<rparr>) f1 = Some r"
  using assms by (cases "setFlag w name v (Changed c name) f") simp_all

lemma ParseFlags_other_Layers:
  "ParseFlags w given c f = Some (c', f') \<Longrightarrow> ''layers'' \<notin> fst ` set given \<Longrightarrow>
   Layers f' = Layers f"
proof (induction given arbitrary: c f)
  case Nil
  then show ?case by simp
next
  case (Cons x given)
  obtain name v where x: "x = (name, v)" by (cases x)
  from Cons.prems(1) obtain f1 where
    s: "setFlag w name v (Changed c name) f = Some f1" and
    p: "ParseFlags w given (c\<lparr>changed := insert name (changed c)\<rparr>) f1 = Some (c', f')"
    unfolding x by (rule ParseFlags_Cons_Some)
  from Cons.prems(2) x have n: "name \<noteq> ''layers''" and g: "''layers'' \<notin> fst ` set given"
    by auto
  from Cons.IH [OF p g] setFlag_other_Layers [OF s n] show ?case by simp
qed

lemma ParseFlags_changed:
  "ParseFlags w given c f = Some (c', f') \<Longrightarrow> changed c' = changed c \<union> fst ` set given"
proof (induction given arbitrary: c f)
  case Nil
  then show ?case by simp
next
  case (Cons x given)
  obtain name v where x: "x = (name, v)" by (cases x)
  from Cons.prems(1) obtain f1 where
    p: "ParseFlags w given (c\<lparr>changed := insert name (changed c)\<rparr>) f1 = Some (c', f')"
    unfolding x by (rule ParseFlags_Cons_Some)
  from Cons.IH [OF p] x show ?case by simp
qed

lemma ParseFlags_append:
  "ParseFlags w (xs @ ys) c f =
     (case ParseFlags w xs c f of None \<Rightarrow> None | Some (c1, f1) \<Rightarrow> ParseFlags w ys c1 f1)"
proof (induction xs arbitrary: c f)
  case Nil
  then show ?case by simp
next
  case (Cons x xs)
  obtain name v where x: "x = (name, v)" by (cases x)
  show ?case
    unfolding x by (cases "setFlag w name v (Changed c name) f") (simp_all add: Cons.IH)
qed

lemma ParseFlags_last_layers:
  assumes "ParseFlags w (pre @ (''layers'', BoolValue b) # post) c f = Some (c', f')"
    and "''layers'' \<notin> fst ` set post"
  shows "Layers f' = b"
proof -
  obtain c1 f1 where
    "ParseFlags w ((''layers'', BoolValue b) # post) c1 f1 = Some (c', f')"
  proof (cases "ParseFlags w pre c f")
    case None
    with assms(1) show ?thesis by (simp add: ParseFlags_append)
  next
    case (Some r)
    obtain c1 f1 where "r = (c1, f1)" by (cases r)
    with Some assms(1) that show ?thesis by (simp add: ParseFlags_append)
  qed
  then have "ParseFlags w post (c1\<lparr>changed := insert ''layers'' (changed c1)\<rparr>)
               (f1\<lparr>Layers := b\<rparr>) = Some (c', f')"
    by (simp add: setFlag_layers)
  from ParseFlags_other_Layers [OF this assms(2)] show ?thesis by simp
qed

lemma Execute_Some:
  assumes "Execute w imageBuild given args s = Some r"
  shows "\<exists>c0 c opts0 s1.
           changed c0 = {} \<and> (Layers (buildOpts s1) \<longleftrightarrow> useLayers w = ''true'') \<and>
           ParseFlags w given c0 (buildOpts s1) = Some (c, opts0) \<and>
           r = build w c args (s1\<lparr>buildOpts := opts0\<rparr>)"
proof -
  define i where "i = init w emptyCommand emptyCommand s"
  define c0 where "c0 = (if imageBuild then snd (fst i) else fst (fst i))"
  define s1 where "s1 = snd i"
  have c0: "changed c0 = {}"
    by (simp add: c0_def i_def init_changed emptyCommand_def)
  have l: "Layers (buildOpts s1) \<longleftrightarrow> useLayers w = ''true''"
    by (simp add: s1_def i_def init_Layers)
  have e: "Execute w imageBuild given args s =
             (case ParseFlags w given c0 (buildOpts s1) of
                None \<Rightarrow> None
              | Some (c, opts) \<Rightarrow>
                  if length args > 1 then None
                  else Some (build w c args (s1\<lparr>buildOpts := opts\<rparr>)))"
    unfolding Execute_def Let_def split_beta c0_def s1_def i_def
    by (cases imageBuild) simp_all
  from assms obtain p where p: "ParseFlags w given c0 (buildOpts s1) = Some p"
    unfolding e by (cases "ParseFlags w given c0 (buildOpts s1)") simp_all
  obtain c opts0 where po: "p = (c, opts0)" by (cases p)
  from assms have "r = build w c args (s1\<lparr>buildOpts := opts0\<rparr>)"
    unfolding e p po by (simp split: if_splits)
  with c0 l p po show ?thesis by blast
qed

text \<open>C4. Let \<open>v\<close> be the value of \<open>BUILDAH_LAYERS\<close> (empty when it is not set). The default
  that \<open>init\<close> gives to \<open>layers\<close> is false exactly when \<open>useLayers\<close> finds \<open>v\<close> to be
  \<open>false\<close> in lower case or to be \<open>0\<close>: for \<open>v\<close> of ASCII bytes, when \<open>v\<close> is one of the
  spellings of \<open>false\<close> in upper- and lower-case letters or is \<open>0\<close>; for other \<open>v\<close> the
  tables of \<^verbatim>\<open>unicode.ToLower\<close> decide, and when they give \<open>false\<close> for no string
  with a byte outside ASCII, the default is false exactly for those spellings and \<open>0\<close>.
  It is true for every other value and when the variable is not set.

  \<open>build\<close> does not read the environment and keeps the value of the flag: for every
  command and every state, when \<open>layers\<close> was set on the command line, or neither
  \<open>squash\<close> nor \<open>squash-all\<close> was, the options handed to the build engine have as
  \<open>Layers\<close> the value the variable \<open>buildOpts.Layers\<close> holds when \<open>build\<close> starts.

  In a run of the command that reaches the build engine, whatever other flags are given:
  if none of \<open>layers\<close>, \<open>squash\<close> and \<open>squash-all\<close> is given, the options have the default
  as \<open>Layers\<close>; if \<open>layers\<close> is given, the options have the value given last, whatever
  the environment holds.\<close>

theorem layers_default_and_explicit_flag:
  fixes w
  defines "v \<equiv> Getenv w ''BUILDAH_LAYERS''"
  defines "disabled \<equiv>
    (if isASCII v then spellsFalse v \<or> v = ''0'' else unicode_ToLower w v = ''false'')"
  shows "(Layers (buildOpts (snd (init w buildCmd imageBuildCmd s))) \<longleftrightarrow> \<not> disabled) \<and>
         (environ w ''BUILDAH_LAYERS'' = None \<longrightarrow> \<not> disabled) \<and>
         ((\<forall>u. \<not> isASCII u \<longrightarrow> unicode_ToLower w u \<noteq> ''false'') \<longrightarrow>
            (disabled \<longleftrightarrow> spellsFalse v \<or> v = ''0'')) \<and>
         (engineCall (fst (build w c args0 s0)) = Some (files0, opts0) \<and>
          (Changed c ''layers'' \<or> \<not> (Changed c ''squash'' \<or> Changed c ''squash-all'')) \<longrightarrow>
            BuildOptions.Layers opts0 = Layers (buildOpts s0)) \<and>
         (Execute w imageBuild given args s = Some (evs, s', err) \<and>
          engineCall evs = Some (files, opts) \<longrightarrow>
            (''layers'' \<notin> fst ` set given \<and> ''squash'' \<notin> fst ` set given \<and>
             ''squash-all'' \<notin> fst ` set given \<longrightarrow>
               (BuildOptions.Layers opts \<longleftrightarrow> \<not> disabled)) \<and>
            (given = pre @ (''layers'', BoolValue b) # post \<and> ''layers'' \<notin> fst ` set post \<longrightarrow>
               BuildOptions.Layers opts = b))"
proof -
  have d: "useLayers w = ''true'' \<longleftrightarrow> \<not> disabled"
    unfolding useLayers_values useLayers_false_iff disabled_def v_def ..
  have unset: "\<not> disabled" if "environ w ''BUILDAH_LAYERS'' = None"
  proof -
    from that have "v = []" by (simp add: v_def Getenv_def)
    then show ?thesis by (simp add: disabled_def isASCII_def spellsFalse_def)
  qed
  have tables: "disabled \<longleftrightarrow> spellsFalse v \<or> v = ''0''"
    if t: "\<forall>u. \<not> isASCII u \<longrightarrow> unicode_ToLower w u \<noteq> ''false''"
  proof (cases "isASCII v")
    case True
    then show ?thesis by (simp add: disabled_def)
  next
    case False
    have "isASCII ''0''"
      by (simp add: isASCII_def)
    with False have "v \<noteq> ''0''" by blast
    moreover from False spellsFalse_isASCII have "\<not> spellsFalse v" by blast
    moreover from False t have "unicode_ToLower w v \<noteq> ''false''" by blast
    ultimately show ?thesis using False by (simp add: disabled_def)
  qed
  have keep: "BuildOptions.Layers opts1 = Layers (buildOpts s1)"
    if e: "engineCall (fst (build w c1 args1 s1)) = Some (files1, opts1)"
      and f: "Changed c1 ''layers'' \<or> \<not> (Changed c1 ''squash'' \<or> Changed c1 ''squash-all'')"
    for c1 args1 s1 files1 opts1
  proof -
    from build_engineCall(1,2) [OF e] obtain lf s2 where
      nc: "\<not> squashLayersConflict c1" and
      t: "buildFlagsWrapperToOptions w c1 (ContextDirectory opts1) lf s1 = (s2, Inr opts1)"
      by blast
    from nc f have "\<not> Changed c1 ''squash''" "\<not> Changed c1 ''squash-all''"
      by (auto simp add: squashLayersConflict_def)
    with toOptions_Inr(2) [OF t] show ?thesis
      by (simp add: squashRules_Layers squashRules_Squash)
  qed
  have run: "(''layers'' \<notin> fst ` set given \<and> ''squash'' \<notin> fst ` set given \<and>
             ''squash-all'' \<notin> fst ` set given \<longrightarrow>
               (BuildOptions.Layers opts \<longleftrightarrow> \<not> disabled)) \<and>
            (given = pre @ (''layers'', BoolValue b) # post \<and> ''layers'' \<notin> fst ` set post \<longrightarrow>
               BuildOptions.Layers opts = b)"
    if x: "Execute w imageBuild given args s = Some (evs, s', err)"
      and e: "engineCall evs = Some (files, opts)"
  proof -
    from Execute_Some [OF x] obtain c0 c opts0 s1 where
      c0: "changed c0 = {}" and l: "Layers (buildOpts s1) \<longleftrightarrow> useLayers w = ''true''" and
      p: "ParseFlags w given c0 (buildOpts s1) = Some (c, opts0)" and
      b: "(evs, s', err) = build w c args (s1\<lparr>buildOpts := opts0\<rparr>)"
      by blast
    from b e have e': "engineCall (fst (build w c args (s1\<lparr>buildOpts := opts0\<rparr>))) =
                         Some (files, opts)"
      by (metis fst_conv)
    have ch: "changed c = fst ` set given"
      using ParseFlags_changed [OF p] c0 by simp
    have a: "BuildOptions.Layers opts \<longleftrightarrow> \<not> disabled"
      if "''layers'' \<notin> fst ` set given" "''squash'' \<notin> fst ` set given"
        "''squash-all'' \<notin> fst ` set given"
    proof -
      from ParseFlags_other_Layers [OF p that(1)] l d have "Layers opts0 \<longleftrightarrow> \<not> disabled"
        by simp
      moreover from that ch have "\<not> (Changed c ''squash'' \<or> Changed c ''squash-all'')"
        by (simp add: Changed_def)
      then have "BuildOptions.Layers opts = Layers (buildOpts (s1\<lparr>buildOpts := opts0\<rparr>))"
        using keep [OF e'] by blast
      ultimately show ?thesis by simp
    qed
    have o: "BuildOptions.Layers opts = b"
      if g: "given = pre @ (''layers'', BoolValue b) # post" and "''layers'' \<notin> fst ` set post"
    proof -
      from p have "Layers opts0 = b"
        unfolding g by (rule ParseFlags_last_layers) (rule that(2))
      moreover from ch g have "Changed c ''layers''"
        by (simp add: Changed_def)
      then have "BuildOptions.Layers opts = Layers (buildOpts (s1\<lparr>buildOpts := opts0\<rparr>))"
        using keep [OF e'] by blast
      ultimately show ?thesis by simp
    qed
    from a o show ?thesis by blast
  qed
  have k: "engineCall (fst (build w c args0 s0)) = Some (files0, opts0) \<and>
          (Changed c ''layers'' \<or> \<not> (Changed c ''squash'' \<or> Changed c ''squash-all'')) \<longrightarrow>
            BuildOptions.Layers opts0 = Layers (buildOpts s0)"
    using keep by blast
  show ?thesis
    using d unset tables k run unfolding init_Layers by blast
qed

theorem layers_default_and_explicit_flag_witness:
  "\<not> Layers (buildOpts (snd (init (exampleWorld\<lparr>environ := [''BUILDAH_LAYERS'' \<mapsto> ''FaLsE'']\<rparr>)
        emptyCommand emptyCommand exampleState))) \<and>
   Layers (buildOpts (snd (init exampleWorld emptyCommand emptyCommand exampleState))) \<and>
   compiledOption BuildOptions.Layers
     (fst (build (exampleWorld\<lparr>environ := [''BUILDAH_LAYERS'' \<mapsto> ''FaLsE'']\<rparr>)
        (commandWith {''layers'', ''quiet''}) [''/tmp/ctx'']
        (exampleState\<lparr>buildOpts := exampleFlags\<lparr>Layers := True\<rparr>\<rparr>))) = Some True \<and>
   compiledOption BuildOptions.Layers
     (runEvents (Execute (exampleWorld\<lparr>environ := [''BUILDAH_LAYERS'' \<mapsto> ''FaLsE'']\<rparr>) False
        [(''creds'', StringValue ''username:password''), (''tag'', StringsValue [''imageName'']),
         (''file'', StringsValue [''Containerfile.simple''])]
        [''/tmp/ctx''] exampleState)) = Some False \<and>
   compiledOption BuildOptions.Layers
     (runEvents (Execute (exampleWorld\<lparr>environ := [''BUILDAH_LAYERS'' \<mapsto> ''FaLsE'']\<rparr>) False
        [(''layers'', BoolValue True), (''quiet'', BoolValue True)] [''/tmp/ctx'']
        exampleState)) = Some True"
proof -
  let ?w = "exampleWorld\<lparr>environ := [''BUILDAH_LAYERS'' \<mapsto> ''FaLsE'']\<rparr>"
  let ?g1 = "[(''creds'', StringValue ''username:password''), (''tag'', StringsValue [''imageName'']),
         (''file'', StringsValue [''Containerfile.simple''])]"
  let ?g2 = "[(''layers'', BoolValue True), (''quiet'', BoolValue True)]"
  let ?c = "commandWith {''layers'', ''quiet''}"
  let ?s = "exampleState\<lparr>buildOpts := exampleFlags\<lparr>Layers := True\<rparr>\<rparr>"
  have v: "Getenv ?w ''BUILDAH_LAYERS'' = ''FaLsE''"
    by code_simp
  have sp: "spellsFalse ''FaLsE''"
    by (simp add: spellsFalse_def)
  have v0: "environ exampleWorld ''BUILDAH_LAYERS'' = None"
    by (simp add: exampleWorld_def)
  have "isASCII ''false''"
    by (simp add: isASCII_def)
  then have tb: "\<forall>u. \<not> isASCII u \<longrightarrow> unicode_ToLower ?w u \<noteq> ''false''"
    by (auto simp add: exampleWorld_def)
  note t0 = layers_default_and_explicit_flag
      [where w = exampleWorld and buildCmd = emptyCommand and imageBuildCmd = emptyCommand
        and s = exampleState]
  from t0 v0 have r0: "Layers (buildOpts (snd (init exampleWorld emptyCommand emptyCommand
      exampleState)))"
    by blast
  have "engineCall (fst (build ?w ?c [''/tmp/ctx''] ?s)) \<noteq> None"
    by code_simp
  then obtain files0 opts0 where
    e0: "engineCall (fst (build ?w ?c [''/tmp/ctx''] ?s)) = Some (files0, opts0)"
    by auto
  have c0: "Changed ?c ''layers''" "Layers (buildOpts ?s)"
    by (simp_all add: Changed_def commandWith_def)
  have n1: "Execute ?w False ?g1 [''/tmp/ctx''] exampleState \<noteq> None"
      "engineCall (runEvents (Execute ?w False ?g1 [''/tmp/ctx''] exampleState)) \<noteq> None"
    by code_simp+
  then obtain evs1 s1 err1 files1 opts1 where
    x1: "Execute ?w False ?g1 [''/tmp/ctx''] exampleState = Some (evs1, s1, err1)" and
    e1: "engineCall evs1 = Some (files1, opts1)"
    by (auto simp add: runEvents_def)
  have g1: "''layers'' \<notin> fst ` set ?g1" "''squash'' \<notin> fst ` set ?g1"
      "''squash-all'' \<notin> fst ` set ?g1"
    by simp_all
  note t1 = layers_default_and_explicit_flag
      [where w = ?w and buildCmd = emptyCommand and imageBuildCmd = emptyCommand
        and s = exampleState and imageBuild = False and given = ?g1 and args = "[''/tmp/ctx'']"
        and evs = evs1 and s' = s1 and err = err1 and files = files1 and opts = opts1
        and c = ?c and ?args0.0 = "[''/tmp/ctx'']" and ?s0.0 = ?s and ?files0.0 = files0
        and ?opts0.0 = opts0]
  from t1 tb sp have dis: "(if isASCII (Getenv ?w ''BUILDAH_LAYERS'')
              then spellsFalse (Getenv ?w ''BUILDAH_LAYERS'') \<or> Getenv ?w ''BUILDAH_LAYERS'' = ''0''
              else unicode_ToLower ?w (Getenv ?w ''BUILDAH_LAYERS'') = ''false'')"
    unfolding v by blast
  from t1 dis have r1: "\<not> Layers (buildOpts (snd (init ?w emptyCommand emptyCommand exampleState)))"
    by blast
  from t1 e0 c0 have "BuildOptions.Layers opts0"
    by blast
  with e0 have rk: "compiledOption BuildOptions.Layers (fst (build ?w ?c [''/tmp/ctx''] ?s)) =
      Some True"
    by (simp add: compiledOption_def)
  from t1 dis x1 e1 g1 have "\<not> BuildOptions.Layers opts1"
    by blast
  with x1 e1 have r2: "compiledOption BuildOptions.Layers
      (runEvents (Execute ?w False ?g1 [''/tmp/ctx''] exampleState)) = Some False"
    by (simp add: compiledOption_def runEvents_def)
  have n2: "Execute ?w False ?g2 [''/tmp/ctx''] exampleState \<noteq> None"
      "engineCall (runEvents (Execute ?w False ?g2 [''/tmp/ctx''] exampleState)) \<noteq> None"
    by code_simp+
  then obtain evs2 s2 err2 files2 opts2 where
    x2: "Execute ?w False ?g2 [''/tmp/ctx''] exampleState = Some (evs2, s2, err2)" and
    e2: "engineCall evs2 = Some (files2, opts2)"
    by (auto simp add: runEvents_def)
  have g2: "?g2 = [] @ (''layers'', BoolValue True) # [(''quiet'', BoolValue True)]"
      "''layers'' \<notin> fst ` set [(''quiet'', BoolValue True)]"
    by simp_all
  note t2 = layers_default_and_explicit_flag
      [where w = ?w and s = exampleState and imageBuild = False and given = ?g2
        and args = "[''/tmp/ctx'']" and evs = evs2 and s' = s2 and err = err2
        and files = files2 and opts = opts2 and pre = "[]" and b = True
        and post = "[(''quiet'', BoolValue True)]"]
  from t2 x2 e2 g2 have "BuildOptions.Layers opts2"
    by blast
  with x2 e2 have r3: "compiledOption BuildOptions.Layers
      (runEvents (Execute ?w False ?g2 [''/tmp/ctx''] exampleState)) = Some True"
    by (simp add: compiledOption_def runEvents_def)
  show ?thesis
    using r0 r1 rk r2 r3 by blast
qed

end
